theory Spec2Isabelle
  imports Main
begin

section \<open>Python values\<close>

text \<open>
  The tools of \<^verbatim>\<open>tools/salesforce_tool.py\<close> and \<^verbatim>\<open>tools/opp_salesforce_tools.py\<close>
  are one-shot HTTP calls against the Salesforce REST API, followed by status-code
  branching and string formatting. The values they handle are the ones
  \<^verbatim>\<open>response.json()\<close> produces. A Python \<^verbatim>\<open>str\<close> is modelled as the list of the
  bytes of its UTF-8 encoding, so that the emoji of the messages are byte sequences and an
  f-string is a concatenation. A float is carried by its \<^verbatim>\<open>repr\<close>, which determines it.
  A \<^verbatim>\<open>dict\<close> is an association list in insertion order.
\<close>

datatype jvalue =
    JNull
  | JBool bool
  | JInt int
  | JFloat string
  | JStr string
  | JArr "jvalue list"
  | JObj "(string \<times> jvalue) list"

text \<open>
  The exceptions the tools can meet. \<open>Exception\<close> is the one the source raises itself,
  with its message. The others are raised by the interpreter (a missing key, a method or
  subscript the value does not have, \<^verbatim>\<open>None + str\<close>) or by the HTTP library (a body
  that is not JSON, a connection that fails).
\<close>

datatype pyerr =
    Exception string
  | KeyError string
  | TypeError
  | AttributeError
  | JSONDecodeError
  | ConnectionError

subsection \<open>\<^verbatim>\<open>str\<close> and \<^verbatim>\<open>repr\<close>\<close>

fun dec_nat :: "nat \<Rightarrow> string" where
  "dec_nat n =
     (if n < 10 then [''0123456789'' ! n]
      else dec_nat (n div 10) @ [''0123456789'' ! (n mod 10)])"

declare dec_nat.simps [simp del]

definition str_int :: "int \<Rightarrow> string" where
  "str_int i = (if i < 0 then ''-'' @ dec_nat (nat (- i)) else dec_nat (nat i))"

definition hex_digits :: string where
  "hex_digits = ''0123456789abcdef''"

fun hex_fixed :: "nat \<Rightarrow> nat \<Rightarrow> string" where
  "hex_fixed 0 n = []"
| "hex_fixed (Suc w) n = hex_fixed w (n div 16) @ [hex_digits ! (n mod 16)]"

text \<open>
  A string is the UTF-8 encoding of a Python \<^verbatim>\<open>str\<close> (a lone surrogate encoded as its
  three bytes), and \<^verbatim>\<open>repr\<close> works on code points. \<open>code_points\<close> cuts the bytes into
  the groups that encode one code point each, by the leading byte of the group, and
  \<open>code_point\<close> is the number a group encodes.
\<close>

definition continuation_count :: "nat \<Rightarrow> nat" where
  "continuation_count b =
     (if b < 0xC0 then 0 else if b < 0xE0 then 1 else if b < 0xF0 then 2 else 3)"

definition lead_bits :: "nat \<Rightarrow> nat" where
  "lead_bits b =
     (if b < 0xC0 then b else if b < 0xE0 then b mod 32 else if b < 0xF0 then b mod 16
      else b mod 8)"

fun code_points :: "string \<Rightarrow> string list" where
  "code_points [] = []"
| "code_points (c # cs) =
     (c # take (continuation_count (of_char c)) cs)
     # code_points (drop (continuation_count (of_char c)) cs)"

definition code_point :: "string \<Rightarrow> nat" where
  "code_point bytes =
     (case bytes of
        [] \<Rightarrow> 0
      | c # cs \<Rightarrow> foldl (\<lambda>n t. n * 64 + of_char t mod 64) (lead_bits (of_char c)) cs)"

text \<open>
  The code points \<^verbatim>\<open>str.isprintable\<close> refuses, as ranges: the Unicode categories Cc, Cf,
  Cs, Co, Cn, Zl, Zp and Zs but for the ASCII space, in the table of Unicode 14.0.0 that
  CPython 3.11 carries.
\<close>

definition nonprintable_ranges :: "(nat \<times> nat) list" where
  "nonprintable_ranges =
     [(0x0, 0x1F), (0x7F, 0xA0), (0xAD, 0xAD), (0x378, 0x379), (0x380, 0x383),
      (0x38B, 0x38B), (0x38D, 0x38D), (0x3A2, 0x3A2), (0x530, 0x530), (0x557, 0x558),
      (0x58B, 0x58C), (0x590, 0x590), (0x5C8, 0x5CF), (0x5EB, 0x5EE), (0x5F5, 0x605),
      (0x61C, 0x61C), (0x6DD, 0x6DD), (0x70E, 0x70F), (0x74B, 0x74C), (0x7B2, 0x7BF),
      (0x7FB, 0x7FC), (0x82E, 0x82F), (0x83F, 0x83F), (0x85C, 0x85D), (0x85F, 0x85F),
      (0x86B, 0x86F), (0x88F, 0x897), (0x8E2, 0x8E2), (0x984, 0x984), (0x98D, 0x98E),
      (0x991, 0x992), (0x9A9, 0x9A9), (0x9B1, 0x9B1), (0x9B3, 0x9B5), (0x9BA, 0x9BB),
      (0x9C5, 0x9C6), (0x9C9, 0x9CA), (0x9CF, 0x9D6), (0x9D8, 0x9DB), (0x9DE, 0x9DE),
      (0x9E4, 0x9E5), (0x9FF, 0xA00), (0xA04, 0xA04), (0xA0B, 0xA0E), (0xA11, 0xA12),
      (0xA29, 0xA29), (0xA31, 0xA31), (0xA34, 0xA34), (0xA37, 0xA37), (0xA3A, 0xA3B),
      (0xA3D, 0xA3D), (0xA43, 0xA46), (0xA49, 0xA4A), (0xA4E, 0xA50), (0xA52, 0xA58),
      (0xA5D, 0xA5D), (0xA5F, 0xA65), (0xA77, 0xA80), (0xA84, 0xA84), (0xA8E, 0xA8E),
      (0xA92, 0xA92), (0xAA9, 0xAA9), (0xAB1, 0xAB1), (0xAB4, 0xAB4), (0xABA, 0xABB),
      (0xAC6, 0xAC6), (0xACA, 0xACA), (0xACE, 0xACF), (0xAD1, 0xADF), (0xAE4, 0xAE5),
      (0xAF2, 0xAF8), (0xB00, 0xB00), (0xB04, 0xB04), (0xB0D, 0xB0E), (0xB11, 0xB12),
      (0xB29, 0xB29), (0xB31, 0xB31), (0xB34, 0xB34), (0xB3A, 0xB3B), (0xB45, 0xB46),
      (0xB49, 0xB4A), (0xB4E, 0xB54), (0xB58, 0xB5B), (0xB5E, 0xB5E), (0xB64, 0xB65),
      (0xB78, 0xB81), (0xB84, 0xB84), (0xB8B, 0xB8D), (0xB91, 0xB91), (0xB96, 0xB98),
      (0xB9B, 0xB9B), (0xB9D, 0xB9D), (0xBA0, 0xBA2), (0xBA5, 0xBA7), (0xBAB, 0xBAD),
      (0xBBA, 0xBBD), (0xBC3, 0xBC5), (0xBC9, 0xBC9), (0xBCE, 0xBCF), (0xBD1, 0xBD6),
      (0xBD8, 0xBE5), (0xBFB, 0xBFF), (0xC0D, 0xC0D), (0xC11, 0xC11), (0xC29, 0xC29),
      (0xC3A, 0xC3B), (0xC45, 0xC45), (0xC49, 0xC49), (0xC4E, 0xC54), (0xC57, 0xC57),
      (0xC5B, 0xC5C), (0xC5E, 0xC5F), (0xC64, 0xC65), (0xC70, 0xC76), (0xC8D, 0xC8D),
      (0xC91, 0xC91), (0xCA9, 0xCA9), (0xCB4, 0xCB4), (0xCBA, 0xCBB), (0xCC5, 0xCC5),
      (0xCC9, 0xCC9), (0xCCE, 0xCD4), (0xCD7, 0xCDC), (0xCDF, 0xCDF), (0xCE4, 0xCE5),
      (0xCF0, 0xCF0), (0xCF3, 0xCFF), (0xD0D, 0xD0D), (0xD11, 0xD11), (0xD45, 0xD45),
      (0xD49, 0xD49), (0xD50, 0xD53), (0xD64, 0xD65), (0xD80, 0xD80), (0xD84, 0xD84),
      (0xD97, 0xD99), (0xDB2, 0xDB2), (0xDBC, 0xDBC), (0xDBE, 0xDBF), (0xDC7, 0xDC9),
      (0xDCB, 0xDCE), (0xDD5, 0xDD5), (0xDD7, 0xDD7), (0xDE0, 0xDE5), (0xDF0, 0xDF1),
      (0xDF5, 0xE00), (0xE3B, 0xE3E), (0xE5C, 0xE80), (0xE83, 0xE83), (0xE85, 0xE85),
      (0xE8B, 0xE8B), (0xEA4, 0xEA4), (0xEA6, 0xEA6), (0xEBE, 0xEBF), (0xEC5, 0xEC5),
      (0xEC7, 0xEC7), (0xECE, 0xECF), (0xEDA, 0xEDB), (0xEE0, 0xEFF), (0xF48, 0xF48),
      (0xF6D, 0xF70), (0xF98, 0xF98), (0xFBD, 0xFBD), (0xFCD, 0xFCD), (0xFDB, 0xFFF),
      (0x10C6, 0x10C6), (0x10C8, 0x10CC), (0x10CE, 0x10CF), (0x1249, 0x1249),
      (0x124E, 0x124F), (0x1257, 0x1257), (0x1259, 0x1259), (0x125E, 0x125F),
      (0x1289, 0x1289), (0x128E, 0x128F), (0x12B1, 0x12B1), (0x12B6, 0x12B7),
      (0x12BF, 0x12BF), (0x12C1, 0x12C1), (0x12C6, 0x12C7), (0x12D7, 0x12D7),
      (0x1311, 0x1311), (0x1316, 0x1317), (0x135B, 0x135C), (0x137D, 0x137F),
      (0x139A, 0x139F), (0x13F6, 0x13F7), (0x13FE, 0x13FF), (0x1680, 0x1680),
      (0x169D, 0x169F), (0x16F9, 0x16FF), (0x1716, 0x171E), (0x1737, 0x173F),
      (0x1754, 0x175F), (0x176D, 0x176D), (0x1771, 0x1771), (0x1774, 0x177F),
      (0x17DE, 0x17DF), (0x17EA, 0x17EF), (0x17FA, 0x17FF), (0x180E, 0x180E),
      (0x181A, 0x181F), (0x1879, 0x187F), (0x18AB, 0x18AF), (0x18F6, 0x18FF),
      (0x191F, 0x191F), (0x192C, 0x192F), (0x193C, 0x193F), (0x1941, 0x1943),
      (0x196E, 0x196F), (0x1975, 0x197F), (0x19AC, 0x19AF), (0x19CA, 0x19CF),
      (0x19DB, 0x19DD), (0x1A1C, 0x1A1D), (0x1A5F, 0x1A5F), (0x1A7D, 0x1A7E),
      (0x1A8A, 0x1A8F), (0x1A9A, 0x1A9F), (0x1AAE, 0x1AAF), (0x1ACF, 0x1AFF),
      (0x1B4D, 0x1B4F), (0x1B7F, 0x1B7F), (0x1BF4, 0x1BFB), (0x1C38, 0x1C3A),
      (0x1C4A, 0x1C4C), (0x1C89, 0x1C8F), (0x1CBB, 0x1CBC), (0x1CC8, 0x1CCF),
      (0x1CFB, 0x1CFF), (0x1F16, 0x1F17), (0x1F1E, 0x1F1F), (0x1F46, 0x1F47),
      (0x1F4E, 0x1F4F), (0x1F58, 0x1F58), (0x1F5A, 0x1F5A), (0x1F5C, 0x1F5C),
      (0x1F5E, 0x1F5E), (0x1F7E, 0x1F7F), (0x1FB5, 0x1FB5), (0x1FC5, 0x1FC5),
      (0x1FD4, 0x1FD5), (0x1FDC, 0x1FDC), (0x1FF0, 0x1FF1), (0x1FF5, 0x1FF5),
      (0x1FFF, 0x200F), (0x2028, 0x202F), (0x205F, 0x206F), (0x2072, 0x2073),
      (0x208F, 0x208F), (0x209D, 0x209F), (0x20C1, 0x20CF), (0x20F1, 0x20FF),
      (0x218C, 0x218F), (0x2427, 0x243F), (0x244B, 0x245F), (0x2B74, 0x2B75),
      (0x2B96, 0x2B96), (0x2CF4, 0x2CF8), (0x2D26, 0x2D26), (0x2D28, 0x2D2C),
      (0x2D2E, 0x2D2F), (0x2D68, 0x2D6E), (0x2D71, 0x2D7E), (0x2D97, 0x2D9F),
      (0x2DA7, 0x2DA7), (0x2DAF, 0x2DAF), (0x2DB7, 0x2DB7), (0x2DBF, 0x2DBF),
      (0x2DC7, 0x2DC7), (0x2DCF, 0x2DCF), (0x2DD7, 0x2DD7), (0x2DDF, 0x2DDF),
      (0x2E5E, 0x2E7F), (0x2E9A, 0x2E9A), (0x2EF4, 0x2EFF), (0x2FD6, 0x2FEF),
      (0x2FFC, 0x3000), (0x3040, 0x3040), (0x3097, 0x3098), (0x3100, 0x3104),
      (0x3130, 0x3130), (0x318F, 0x318F), (0x31E4, 0x31EF), (0x321F, 0x321F),
      (0xA48D, 0xA48F), (0xA4C7, 0xA4CF), (0xA62C, 0xA63F), (0xA6F8, 0xA6FF),
      (0xA7CB, 0xA7CF), (0xA7D2, 0xA7D2), (0xA7D4, 0xA7D4), (0xA7DA, 0xA7F1),
      (0xA82D, 0xA82F), (0xA83A, 0xA83F), (0xA878, 0xA87F), (0xA8C6, 0xA8CD),
      (0xA8DA, 0xA8DF), (0xA954, 0xA95E), (0xA97D, 0xA97F), (0xA9CE, 0xA9CE),
      (0xA9DA, 0xA9DD), (0xA9FF, 0xA9FF), (0xAA37, 0xAA3F), (0xAA4E, 0xAA4F),
      (0xAA5A, 0xAA5B), (0xAAC3, 0xAADA), (0xAAF7, 0xAB00), (0xAB07, 0xAB08),
      (0xAB0F, 0xAB10), (0xAB17, 0xAB1F), (0xAB27, 0xAB27), (0xAB2F, 0xAB2F),
      (0xAB6C, 0xAB6F), (0xABEE, 0xABEF), (0xABFA, 0xABFF), (0xD7A4, 0xD7AF),
      (0xD7C7, 0xD7CA), (0xD7FC, 0xF8FF), (0xFA6E, 0xFA6F), (0xFADA, 0xFAFF),
      (0xFB07, 0xFB12), (0xFB18, 0xFB1C), (0xFB37, 0xFB37), (0xFB3D, 0xFB3D),
      (0xFB3F, 0xFB3F), (0xFB42, 0xFB42), (0xFB45, 0xFB45), (0xFBC3, 0xFBD2),
      (0xFD90, 0xFD91), (0xFDC8, 0xFDCE), (0xFDD0, 0xFDEF), (0xFE1A, 0xFE1F),
      (0xFE53, 0xFE53), (0xFE67, 0xFE67), (0xFE6C, 0xFE6F), (0xFE75, 0xFE75),
      (0xFEFD, 0xFF00), (0xFFBF, 0xFFC1), (0xFFC8, 0xFFC9), (0xFFD0, 0xFFD1),
      (0xFFD8, 0xFFD9), (0xFFDD, 0xFFDF), (0xFFE7, 0xFFE7), (0xFFEF, 0xFFFB),
      (0xFFFE, 0xFFFF), (0x1000C, 0x1000C), (0x10027, 0x10027), (0x1003B, 0x1003B),
      (0x1003E, 0x1003E), (0x1004E, 0x1004F), (0x1005E, 0x1007F), (0x100FB, 0x100FF),
      (0x10103, 0x10106), (0x10134, 0x10136), (0x1018F, 0x1018F), (0x1019D, 0x1019F),
      (0x101A1, 0x101CF), (0x101FE, 0x1027F), (0x1029D, 0x1029F), (0x102D1, 0x102DF),
      (0x102FC, 0x102FF), (0x10324, 0x1032C), (0x1034B, 0x1034F), (0x1037B, 0x1037F),
      (0x1039E, 0x1039E), (0x103C4, 0x103C7), (0x103D6, 0x103FF), (0x1049E, 0x1049F),
      (0x104AA, 0x104AF), (0x104D4, 0x104D7), (0x104FC, 0x104FF), (0x10528, 0x1052F),
      (0x10564, 0x1056E), (0x1057B, 0x1057B), (0x1058B, 0x1058B), (0x10593, 0x10593),
      (0x10596, 0x10596), (0x105A2, 0x105A2), (0x105B2, 0x105B2), (0x105BA, 0x105BA),
      (0x105BD, 0x105FF), (0x10737, 0x1073F), (0x10756, 0x1075F), (0x10768, 0x1077F),
      (0x10786, 0x10786), (0x107B1, 0x107B1), (0x107BB, 0x107FF), (0x10806, 0x10807),
      (0x10809, 0x10809), (0x10836, 0x10836), (0x10839, 0x1083B), (0x1083D, 0x1083E),
      (0x10856, 0x10856), (0x1089F, 0x108A6), (0x108B0, 0x108DF), (0x108F3, 0x108F3),
      (0x108F6, 0x108FA), (0x1091C, 0x1091E), (0x1093A, 0x1093E), (0x10940, 0x1097F),
      (0x109B8, 0x109BB), (0x109D0, 0x109D1), (0x10A04, 0x10A04), (0x10A07, 0x10A0B),
      (0x10A14, 0x10A14), (0x10A18, 0x10A18), (0x10A36, 0x10A37), (0x10A3B, 0x10A3E),
      (0x10A49, 0x10A4F), (0x10A59, 0x10A5F), (0x10AA0, 0x10ABF), (0x10AE7, 0x10AEA),
      (0x10AF7, 0x10AFF), (0x10B36, 0x10B38), (0x10B56, 0x10B57), (0x10B73, 0x10B77),
      (0x10B92, 0x10B98), (0x10B9D, 0x10BA8), (0x10BB0, 0x10BFF), (0x10C49, 0x10C7F),
      (0x10CB3, 0x10CBF), (0x10CF3, 0x10CF9), (0x10D28, 0x10D2F), (0x10D3A, 0x10E5F),
      (0x10E7F, 0x10E7F), (0x10EAA, 0x10EAA), (0x10EAE, 0x10EAF), (0x10EB2, 0x10EFF),
      (0x10F28, 0x10F2F), (0x10F5A, 0x10F6F), (0x10F8A, 0x10FAF), (0x10FCC, 0x10FDF),
      (0x10FF7, 0x10FFF), (0x1104E, 0x11051), (0x11076, 0x1107E), (0x110BD, 0x110BD),
      (0x110C3, 0x110CF), (0x110E9, 0x110EF), (0x110FA, 0x110FF), (0x11135, 0x11135),
      (0x11148, 0x1114F), (0x11177, 0x1117F), (0x111E0, 0x111E0), (0x111F5, 0x111FF),
      (0x11212, 0x11212), (0x1123F, 0x1127F), (0x11287, 0x11287), (0x11289, 0x11289),
      (0x1128E, 0x1128E), (0x1129E, 0x1129E), (0x112AA, 0x112AF), (0x112EB, 0x112EF),
      (0x112FA, 0x112FF), (0x11304, 0x11304), (0x1130D, 0x1130E), (0x11311, 0x11312),
      (0x11329, 0x11329), (0x11331, 0x11331), (0x11334, 0x11334), (0x1133A, 0x1133A),
      (0x11345, 0x11346), (0x11349, 0x1134A), (0x1134E, 0x1134F), (0x11351, 0x11356),
      (0x11358, 0x1135C), (0x11364, 0x11365), (0x1136D, 0x1136F), (0x11375, 0x113FF),
      (0x1145C, 0x1145C), (0x11462, 0x1147F), (0x114C8, 0x114CF), (0x114DA, 0x1157F),
      (0x115B6, 0x115B7), (0x115DE, 0x115FF), (0x11645, 0x1164F), (0x1165A, 0x1165F),
      (0x1166D, 0x1167F), (0x116BA, 0x116BF), (0x116CA, 0x116FF), (0x1171B, 0x1171C),
      (0x1172C, 0x1172F), (0x11747, 0x117FF), (0x1183C, 0x1189F), (0x118F3, 0x118FE),
      (0x11907, 0x11908), (0x1190A, 0x1190B), (0x11914, 0x11914), (0x11917, 0x11917),
      (0x11936, 0x11936), (0x11939, 0x1193A), (0x11947, 0x1194F), (0x1195A, 0x1199F),
      (0x119A8, 0x119A9), (0x119D8, 0x119D9), (0x119E5, 0x119FF), (0x11A48, 0x11A4F),
      (0x11AA3, 0x11AAF), (0x11AF9, 0x11BFF), (0x11C09, 0x11C09), (0x11C37, 0x11C37),
      (0x11C46, 0x11C4F), (0x11C6D, 0x11C6F), (0x11C90, 0x11C91), (0x11CA8, 0x11CA8),
      (0x11CB7, 0x11CFF), (0x11D07, 0x11D07), (0x11D0A, 0x11D0A), (0x11D37, 0x11D39),
      (0x11D3B, 0x11D3B), (0x11D3E, 0x11D3E), (0x11D48, 0x11D4F), (0x11D5A, 0x11D5F),
      (0x11D66, 0x11D66), (0x11D69, 0x11D69), (0x11D8F, 0x11D8F), (0x11D92, 0x11D92),
      (0x11D99, 0x11D9F), (0x11DAA, 0x11EDF), (0x11EF9, 0x11FAF), (0x11FB1, 0x11FBF),
      (0x11FF2, 0x11FFE), (0x1239A, 0x123FF), (0x1246F, 0x1246F), (0x12475, 0x1247F),
      (0x12544, 0x12F8F), (0x12FF3, 0x12FFF), (0x1342F, 0x143FF), (0x14647, 0x167FF),
      (0x16A39, 0x16A3F), (0x16A5F, 0x16A5F), (0x16A6A, 0x16A6D), (0x16ABF, 0x16ABF),
      (0x16ACA, 0x16ACF), (0x16AEE, 0x16AEF), (0x16AF6, 0x16AFF), (0x16B46, 0x16B4F),
      (0x16B5A, 0x16B5A), (0x16B62, 0x16B62), (0x16B78, 0x16B7C), (0x16B90, 0x16E3F),
      (0x16E9B, 0x16EFF), (0x16F4B, 0x16F4E), (0x16F88, 0x16F8E), (0x16FA0, 0x16FDF),
      (0x16FE5, 0x16FEF), (0x16FF2, 0x16FFF), (0x187F8, 0x187FF), (0x18CD6, 0x18CFF),
      (0x18D09, 0x1AFEF), (0x1AFF4, 0x1AFF4), (0x1AFFC, 0x1AFFC), (0x1AFFF, 0x1AFFF),
      (0x1B123, 0x1B14F), (0x1B153, 0x1B163), (0x1B168, 0x1B16F), (0x1B2FC, 0x1BBFF),
      (0x1BC6B, 0x1BC6F), (0x1BC7D, 0x1BC7F), (0x1BC89, 0x1BC8F), (0x1BC9A, 0x1BC9B),
      (0x1BCA0, 0x1CEFF), (0x1CF2E, 0x1CF2F), (0x1CF47, 0x1CF4F), (0x1CFC4, 0x1CFFF),
      (0x1D0F6, 0x1D0FF), (0x1D127, 0x1D128), (0x1D173, 0x1D17A), (0x1D1EB, 0x1D1FF),
      (0x1D246, 0x1D2DF), (0x1D2F4, 0x1D2FF), (0x1D357, 0x1D35F), (0x1D379, 0x1D3FF),
      (0x1D455, 0x1D455), (0x1D49D, 0x1D49D), (0x1D4A0, 0x1D4A1), (0x1D4A3, 0x1D4A4),
      (0x1D4A7, 0x1D4A8), (0x1D4AD, 0x1D4AD), (0x1D4BA, 0x1D4BA), (0x1D4BC, 0x1D4BC),
      (0x1D4C4, 0x1D4C4), (0x1D506, 0x1D506), (0x1D50B, 0x1D50C), (0x1D515, 0x1D515),
      (0x1D51D, 0x1D51D), (0x1D53A, 0x1D53A), (0x1D53F, 0x1D53F), (0x1D545, 0x1D545),
      (0x1D547, 0x1D549), (0x1D551, 0x1D551), (0x1D6A6, 0x1D6A7), (0x1D7CC, 0x1D7CD),
      (0x1DA8C, 0x1DA9A), (0x1DAA0, 0x1DAA0), (0x1DAB0, 0x1DEFF), (0x1DF1F, 0x1DFFF),
      (0x1E007, 0x1E007), (0x1E019, 0x1E01A), (0x1E022, 0x1E022), (0x1E025, 0x1E025),
      (0x1E02B, 0x1E0FF), (0x1E12D, 0x1E12F), (0x1E13E, 0x1E13F), (0x1E14A, 0x1E14D),
      (0x1E150, 0x1E28F), (0x1E2AF, 0x1E2BF), (0x1E2FA, 0x1E2FE), (0x1E300, 0x1E7DF),
      (0x1E7E7, 0x1E7E7), (0x1E7EC, 0x1E7EC), (0x1E7EF, 0x1E7EF), (0x1E7FF, 0x1E7FF),
      (0x1E8C5, 0x1E8C6), (0x1E8D7, 0x1E8FF), (0x1E94C, 0x1E94F), (0x1E95A, 0x1E95D),
      (0x1E960, 0x1EC70), (0x1ECB5, 0x1ED00), (0x1ED3E, 0x1EDFF), (0x1EE04, 0x1EE04),
      (0x1EE20, 0x1EE20), (0x1EE23, 0x1EE23), (0x1EE25, 0x1EE26), (0x1EE28, 0x1EE28),
      (0x1EE33, 0x1EE33), (0x1EE38, 0x1EE38), (0x1EE3A, 0x1EE3A), (0x1EE3C, 0x1EE41),
      (0x1EE43, 0x1EE46), (0x1EE48, 0x1EE48), (0x1EE4A, 0x1EE4A), (0x1EE4C, 0x1EE4C),
      (0x1EE50, 0x1EE50), (0x1EE53, 0x1EE53), (0x1EE55, 0x1EE56), (0x1EE58, 0x1EE58),
      (0x1EE5A, 0x1EE5A), (0x1EE5C, 0x1EE5C), (0x1EE5E, 0x1EE5E), (0x1EE60, 0x1EE60),
      (0x1EE63, 0x1EE63), (0x1EE65, 0x1EE66), (0x1EE6B, 0x1EE6B), (0x1EE73, 0x1EE73),
      (0x1EE78, 0x1EE78), (0x1EE7D, 0x1EE7D), (0x1EE7F, 0x1EE7F), (0x1EE8A, 0x1EE8A),
      (0x1EE9C, 0x1EEA0), (0x1EEA4, 0x1EEA4), (0x1EEAA, 0x1EEAA), (0x1EEBC, 0x1EEEF),
      (0x1EEF2, 0x1EFFF), (0x1F02C, 0x1F02F), (0x1F094, 0x1F09F), (0x1F0AF, 0x1F0B0),
      (0x1F0C0, 0x1F0C0), (0x1F0D0, 0x1F0D0), (0x1F0F6, 0x1F0FF), (0x1F1AE, 0x1F1E5),
      (0x1F203, 0x1F20F), (0x1F23C, 0x1F23F), (0x1F249, 0x1F24F), (0x1F252, 0x1F25F),
      (0x1F266, 0x1F2FF), (0x1F6D8, 0x1F6DC), (0x1F6ED, 0x1F6EF), (0x1F6FD, 0x1F6FF),
      (0x1F774, 0x1F77F), (0x1F7D9, 0x1F7DF), (0x1F7EC, 0x1F7EF), (0x1F7F1, 0x1F7FF),
      (0x1F80C, 0x1F80F), (0x1F848, 0x1F84F), (0x1F85A, 0x1F85F), (0x1F888, 0x1F88F),
      (0x1F8AE, 0x1F8AF), (0x1F8B2, 0x1F8FF), (0x1FA54, 0x1FA5F), (0x1FA6E, 0x1FA6F),
      (0x1FA75, 0x1FA77), (0x1FA7D, 0x1FA7F), (0x1FA87, 0x1FA8F), (0x1FAAD, 0x1FAAF),
      (0x1FABB, 0x1FABF), (0x1FAC6, 0x1FACF), (0x1FADA, 0x1FADF), (0x1FAE8, 0x1FAEF),
      (0x1FAF7, 0x1FAFF), (0x1FB93, 0x1FB93), (0x1FBCB, 0x1FBEF), (0x1FBFA, 0x1FFFF),
      (0x2A6E0, 0x2A6FF), (0x2B739, 0x2B73F), (0x2B81E, 0x2B81F), (0x2CEA2, 0x2CEAF),
      (0x2EBE1, 0x2F7FF), (0x2FA1E, 0x2FFFF), (0x3134B, 0xE00FF), (0xE01F0, 0x10FFFF)]"

definition py_isprintable :: "nat \<Rightarrow> bool" where
  "py_isprintable cp \<longleftrightarrow> \<not> list_ex (\<lambda>(lo, hi). lo \<le> cp \<and> cp \<le> hi) nonprintable_ranges"

text \<open>
  What \<^verbatim>\<open>repr\<close> writes for one code point, given the quote \<open>q\<close> it has chosen and the
  bytes \<open>g\<close> of the code point: a backslash before the quote and the backslash, the short
  escapes of tab, line feed and carriage return, \<^verbatim>\<open>\xhh\<close> for the other ASCII controls,
  the character itself when it is printable, and otherwise \<^verbatim>\<open>\xhh\<close>, \<^verbatim>\<open>\uhhhh\<close> or
  \<^verbatim>\<open>\Uhhhhhhhh\<close> by the size of the code point.
\<close>

definition repr_char :: "char \<Rightarrow> string \<Rightarrow> string" where
  "repr_char q g =
     (let cp = code_point g in
      if cp = of_char q \<or> cp = 0x5C then CHR 0x5C # g
      else if cp = 0x09 then [CHR 0x5C, CHR ''t'']
      else if cp = 0x0A then [CHR 0x5C, CHR ''n'']
      else if cp = 0x0D then [CHR 0x5C, CHR ''r'']
      else if cp < 0x20 \<or> cp = 0x7F then [CHR 0x5C, CHR ''x''] @ hex_fixed 2 cp
      else if cp < 0x7F then g
      else if py_isprintable cp then g
      else if cp \<le> 0xFF then [CHR 0x5C, CHR ''x''] @ hex_fixed 2 cp
      else if cp \<le> 0xFFFF then [CHR 0x5C, CHR ''u''] @ hex_fixed 4 cp
      else [CHR 0x5C, CHR ''U''] @ hex_fixed 8 cp)"

definition repr_str :: "string \<Rightarrow> string" where
  "repr_str s =
     (let q = (if CHR 0x27 \<in> set s \<and> CHR 0x22 \<notin> set s then CHR 0x22 else CHR 0x27)
      in [q] @ concat (map (repr_char q) (code_points s)) @ [q])"

fun py_repr :: "jvalue \<Rightarrow> string"
  and repr_items :: "jvalue list \<Rightarrow> string"
  and repr_fields :: "(string \<times> jvalue) list \<Rightarrow> string" where
  "py_repr JNull = ''None''"
| "py_repr (JBool b) = (if b then ''True'' else ''False'')"
| "py_repr (JInt i) = str_int i"
| "py_repr (JFloat r) = r"
| "py_repr (JStr s) = repr_str s"
| "py_repr (JArr xs) = ''['' @ repr_items xs @ '']''"
| "py_repr (JObj kvs) = ''{'' @ repr_fields kvs @ ''}''"
| "repr_items [] = []"
| "repr_items [x] = py_repr x"
| "repr_items (x # y # xs) = py_repr x @ '', '' @ repr_items (y # xs)"
| "repr_fields [] = []"
| "repr_fields [(k, v)] = repr_str k @ '': '' @ py_repr v"
| "repr_fields ((k, v) # kv # kvs) =
     repr_str k @ '': '' @ py_repr v @ '', '' @ repr_fields (kv # kvs)"

text \<open>What an f-string puts in place of \<^verbatim>\<open>{v}\<close>: \<^verbatim>\<open>str(v)\<close>.\<close>

definition py_str :: "jvalue \<Rightarrow> string" where
  "py_str v = (case v of JStr s \<Rightarrow> s | _ \<Rightarrow> py_repr v)"

subsection \<open>Truth, subscripts, \<^verbatim>\<open>.get\<close>, iteration\<close>

text \<open>\<^verbatim>\<open>not v\<close> is \<open>\<not> py_truthy v\<close>.\<close>

definition py_truthy :: "jvalue \<Rightarrow> bool" where
  "py_truthy v =
     (case v of
        JNull \<Rightarrow> False
      | JBool b \<Rightarrow> b
      | JInt i \<Rightarrow> i \<noteq> 0
      | JFloat r \<Rightarrow> r \<noteq> ''0.0'' \<and> r \<noteq> ''-0.0''
      | JStr s \<Rightarrow> s \<noteq> []
      | JArr xs \<Rightarrow> xs \<noteq> []
      | JObj kvs \<Rightarrow> kvs \<noteq> [])"

text \<open>\<^verbatim>\<open>v[k]\<close> with a string key: a dict looks the key up, every other value raises.\<close>

definition py_getitem :: "jvalue \<Rightarrow> string \<Rightarrow> pyerr + jvalue" where
  "py_getitem v k =
     (case v of
        JObj kvs \<Rightarrow> (case map_of kvs k of Some x \<Rightarrow> Inr x | None \<Rightarrow> Inl (KeyError k))
      | _ \<Rightarrow> Inl TypeError)"

text \<open>\<^verbatim>\<open>v.get(k, d)\<close>: only a dict has the method.\<close>

definition py_get :: "jvalue \<Rightarrow> string \<Rightarrow> jvalue \<Rightarrow> pyerr + jvalue" where
  "py_get v k d =
     (case v of
        JObj kvs \<Rightarrow> (case map_of kvs k of Some x \<Rightarrow> Inr x | None \<Rightarrow> Inr d)
      | _ \<Rightarrow> Inl AttributeError)"

text \<open>
  The items a \<^verbatim>\<open>for\<close> loop draws from a value: the elements of a list, the keys of a
  dict, the characters of a string; nothing else is iterable.
\<close>

definition py_iter :: "jvalue \<Rightarrow> pyerr + jvalue list" where
  "py_iter v =
     (case v of
        JArr xs \<Rightarrow> Inr xs
      | JObj kvs \<Rightarrow> Inr (map (\<lambda>kv. JStr (fst kv)) kvs)
      | JStr s \<Rightarrow> Inr (map JStr (code_points s))
      | _ \<Rightarrow> Inl TypeError)"

text \<open>
  Binding on a result: the first exception raised ends the evaluation, as in Python.
\<close>

definition py_bind :: "pyerr + 'a \<Rightarrow> ('a \<Rightarrow> pyerr + 'b) \<Rightarrow> pyerr + 'b" where
  "py_bind r f = (case r of Inl e \<Rightarrow> Inl e | Inr a \<Rightarrow> f a)"

text \<open>\<^verbatim>\<open>d[k] = v\<close> on a dict: a key already there keeps its place.\<close>

fun dict_set :: "('k \<times> 'v) list \<Rightarrow> 'k \<Rightarrow> 'v \<Rightarrow> ('k \<times> 'v) list" where
  "dict_set [] k v = [(k, v)]"
| "dict_set ((k', v') # kvs) k v =
     (if k' = k then (k, v) # kvs else (k', v') # dict_set kvs k v)"

text \<open>\<^verbatim>\<open>a + b\<close> on two results of \<^verbatim>\<open>os.getenv\<close>: \<^verbatim>\<open>None\<close> on either side raises.\<close>

definition getenv_concat :: "string option \<Rightarrow> string option \<Rightarrow> pyerr + string" where
  "getenv_concat a b =
     (case (a, b) of (Some x, Some y) \<Rightarrow> Inr (x @ y) | _ \<Rightarrow> Inl TypeError)"

section \<open>The network and the request log\<close>

text \<open>
  Every tool talks to Salesforce through \<^verbatim>\<open>requests\<close>. A request is what the call
  passes; a response is what the tool reads of it: the status code, the text of the
  body, and the result of \<^verbatim>\<open>response.json()\<close> (\<open>None\<close> when the body is not JSON and
  the call raises). The network answers a request knowing the requests made before it,
  or raises. The state a tool threads is the log of the requests issued so far.
\<close>

datatype http_method = GET | POST | PATCH | DELETE

datatype payload =
    NoPayload
  | FormData "(string \<times> string option) list"
  | JsonBody "(string \<times> jvalue) list"

record request =
  verb :: http_method
  url :: string
  headers :: "(string \<times> string) list"
  params :: "(string \<times> string) list"
  payload :: payload

record response =
  status_code :: int
  resp_text :: string
  json :: "jvalue option"

type_synonym network = "request list \<Rightarrow> request \<Rightarrow> pyerr + response"

type_synonym environ = "string \<Rightarrow> string option"

type_synonym 'a io = "request list \<Rightarrow> (pyerr + 'a) \<times> request list"

definition io_return :: "'a \<Rightarrow> 'a io" where
  "io_return a log = (Inr a, log)"

definition io_raise :: "pyerr \<Rightarrow> 'a io" where
  "io_raise e log = (Inl e, log)"

definition io_lift :: "pyerr + 'a \<Rightarrow> 'a io" where
  "io_lift r log = (r, log)"

definition io_bind :: "'a io \<Rightarrow> ('a \<Rightarrow> 'b io) \<Rightarrow> 'b io" where
  "io_bind m f log =
     (case m log of
        (Inl e, log') \<Rightarrow> (Inl e, log')
      | (Inr a, log') \<Rightarrow> f a log')"

definition send :: "network \<Rightarrow> request \<Rightarrow> response io" where
  "send net rq log = (net log rq, log @ [rq])"

definition response_json :: "response \<Rightarrow> pyerr + jvalue" where
  "response_json r = (case json r of Some v \<Rightarrow> Inr v | None \<Rightarrow> Inl JSONDecodeError)"

section \<open>Authentication\<close>

definition auth_url :: string where
  "auth_url = ''https://login.salesforce.com/services/oauth2/token''"

definition token_request :: "environ \<Rightarrow> string \<Rightarrow> request" where
  "token_request env password =
     \<lparr>verb = POST, url = auth_url, headers = [], params = [],
      payload = FormData
        [(''grant_type'', Some ''password''),
         (''client_id'', env ''SF_CONSUMER_KEY''),
         (''client_secret'', env ''SF_CONSUMER_SECRET''),
         (''username'', env ''SF_USERNAME''),
         (''password'', Some password)]\<rparr>"

text \<open>
  \<^verbatim>\<open>get_access_token\<close> of \<^verbatim>\<open>tools/salesforce_tool.py\<close>. The password and the
  security token are concatenated while the form is built, before the request.
\<close>

definition get_access_token :: "environ \<Rightarrow> network \<Rightarrow> (jvalue \<times> jvalue) io" where
  "get_access_token env net =
     io_bind (io_lift (getenv_concat (env ''SF_PASSWORD'') (env ''SF_SECURITY_TOKEN'')))
       (\<lambda>password.
     io_bind (send net (token_request env password)) (\<lambda>response.
       if status_code response = 200 then
         io_bind (io_lift (response_json response)) (\<lambda>response_data.
         io_bind (io_lift (py_get response_data ''access_token'' JNull)) (\<lambda>access_token.
         io_bind (io_lift (py_get response_data ''instance_url'' JNull)) (\<lambda>instance_url.
         io_return (access_token, instance_url))))
       else
         io_raise (Exception (''Error fetching access token: ''
           @ str_int (status_code response) @ '', '' @ resp_text response))))"

text \<open>
  \<^verbatim>\<open>get_access_token\<close> of \<^verbatim>\<open>tools/opp_salesforce_tools.py\<close>: the same body, defined
  a second time in that module.
\<close>

definition get_access_token_opp :: "environ \<Rightarrow> network \<Rightarrow> (jvalue \<times> jvalue) io" where
  "get_access_token_opp env net =
     io_bind (io_lift (getenv_concat (env ''SF_PASSWORD'') (env ''SF_SECURITY_TOKEN'')))
       (\<lambda>password.
     io_bind (send net (token_request env password)) (\<lambda>response.
       if status_code response = 200 then
         io_bind (io_lift (response_json response)) (\<lambda>response_data.
         io_bind (io_lift (py_get response_data ''access_token'' JNull)) (\<lambda>access_token.
         io_bind (io_lift (py_get response_data ''instance_url'' JNull)) (\<lambda>instance_url.
         io_return (access_token, instance_url))))
       else
         io_raise (Exception (''Error fetching access token: ''
           @ str_int (status_code response) @ '', '' @ resp_text response))))"

section \<open>Requests and messages the tools share\<close>

abbreviation NL :: string where "NL \<equiv> [CHR 0x0A]"
abbreviation cross_mark :: string where "cross_mark \<equiv> [CHR 0xE2, CHR 0x9D, CHR 0x8C]"
abbreviation check_mark :: string where "check_mark \<equiv> [CHR 0xE2, CHR 0x9C, CHR 0x85]"
abbreviation calendar :: string where "calendar \<equiv> [CHR 0xF0, CHR 0x9F, CHR 0x93, CHR 0x85]"
abbreviation money_bag :: string where "money_bag \<equiv> [CHR 0xF0, CHR 0x9F, CHR 0x92, CHR 0xB0]"
abbreviation bar_chart :: string where "bar_chart \<equiv> [CHR 0xF0, CHR 0x9F, CHR 0x93, CHR 0x8A]"
abbreviation party_popper :: string where "party_popper \<equiv> [CHR 0xF0, CHR 0x9F, CHR 0x8E, CHR 0x89]"
abbreviation warning_sign :: string where
  "warning_sign \<equiv> [CHR 0xE2, CHR 0x9A, CHR 0xA0, CHR 0xEF, CHR 0xB8, CHR 0x8F]"
abbreviation rocket :: string where "rocket \<equiv> [CHR 0xF0, CHR 0x9F, CHR 0x9A, CHR 0x80]"
abbreviation magnifier_left :: string where "magnifier_left \<equiv> [CHR 0xF0, CHR 0x9F, CHR 0x94, CHR 0x8D]"
abbreviation magnifier_right :: string where "magnifier_right \<equiv> [CHR 0xF0, CHR 0x9F, CHR 0x94, CHR 0x8E]"
abbreviation dollar_note :: string where "dollar_note \<equiv> [CHR 0xF0, CHR 0x9F, CHR 0x92, CHR 0xB5]"
abbreviation bullseye :: string where "bullseye \<equiv> [CHR 0xF0, CHR 0x9F, CHR 0x8E, CHR 0xAF]"
abbreviation speech_balloon :: string where "speech_balloon \<equiv> [CHR 0xF0, CHR 0x9F, CHR 0x92, CHR 0xAC]"
abbreviation office :: string where "office \<equiv> [CHR 0xF0, CHR 0x9F, CHR 0x8F, CHR 0xA2]"
abbreviation e_mail :: string where "e_mail \<equiv> [CHR 0xF0, CHR 0x9F, CHR 0x93, CHR 0xA7]"
abbreviation link_sign :: string where "link_sign \<equiv> [CHR 0xF0, CHR 0x9F, CHR 0x94, CHR 0x97]"
abbreviation bust :: string where "bust \<equiv> [CHR 0xF0, CHR 0x9F, CHR 0x91, CHR 0xA4]"
abbreviation mobile :: string where "mobile \<equiv> [CHR 0xF0, CHR 0x9F, CHR 0x93, CHR 0xB1]"
abbreviation trophy :: string where "trophy \<equiv> [CHR 0xF0, CHR 0x9F, CHR 0x8F, CHR 0x86]"
abbreviation memo :: string where "memo \<equiv> [CHR 0xF0, CHR 0x9F, CHR 0x93, CHR 0x9D]"
abbreviation ticket :: string where "ticket \<equiv> [CHR 0xF0, CHR 0x9F, CHR 0x8E, CHR 0xAB]"

definition api_version :: string where
  "api_version = ''v57.0''"

text \<open>
  The headers every tool builds after authenticating. The token is whatever the token
  endpoint sent (\<^verbatim>\<open>None\<close> when the key was absent), formatted by the f-string.
\<close>

definition bearer_headers :: "jvalue \<Rightarrow> (string \<times> string) list" where
  "bearer_headers access_token =
     [(''Authorization'', ''Bearer '' @ py_str access_token),
      (''Content-Type'', ''application/json'')]"

text \<open>The GET on the query endpoint, with the SOQL text as the parameter \<^verbatim>\<open>q\<close>.\<close>

definition query_request :: "jvalue \<Rightarrow> jvalue \<Rightarrow> string \<Rightarrow> request" where
  "query_request access_token instance_url q =
     \<lparr>verb = GET,
      url = py_str instance_url @ ''/services/data/'' @ api_version @ ''/query'',
      headers = bearer_headers access_token,
      params = [(''q'', q)],
      payload = NoPayload\<rparr>"

text \<open>The request on one object: \<^verbatim>\<open>/sobjects/{Type}/{id}\<close>.\<close>

definition sobject_request ::
  "http_method \<Rightarrow> jvalue \<Rightarrow> jvalue \<Rightarrow> string \<Rightarrow> string \<Rightarrow> payload \<Rightarrow> request" where
  "sobject_request m access_token instance_url type_name ident pl =
     \<lparr>verb = m,
      url = py_str instance_url @ ''/services/data/'' @ api_version
        @ ''/sobjects/'' @ type_name @ ''/'' @ ident,
      headers = bearer_headers access_token,
      params = [],
      payload = pl\<rparr>"

section \<open>\<^verbatim>\<open>tools/salesforce_tool.py\<close>\<close>

subsection \<open>\<^verbatim>\<open>fetch_case_comments\<close>\<close>

definition case_comments_query :: "string \<Rightarrow> string" where
  "case_comments_query case_number =
     ''SELECT Id, CommentBody, CreatedDate FROM CaseComment WHERE ParentId IN ''
     @ ''(SELECT Id FROM Case WHERE CaseNumber = '' @ [CHR 0x27] @ case_number
     @ [CHR 0x27] @ '')''"

text \<open>The loop over the comments, with the text built so far.\<close>

fun comments_loop :: "jvalue list \<Rightarrow> string \<Rightarrow> pyerr + string" where
  "comments_loop [] formatted_comments = Inr formatted_comments"
| "comments_loop (comment # rest) formatted_comments =
     py_bind (py_getitem comment ''CommentBody'') (\<lambda>comment_body.
     py_bind (py_getitem comment ''CreatedDate'') (\<lambda>created_date.
     comments_loop rest
       (formatted_comments
        @ ''*'' @ memo @ '' Comment:* '' @ py_str comment_body @ NL
        @ ''*'' @ calendar @ '' Created On:* '' @ py_str created_date @ NL @ NL)))"

definition no_comments_message :: string where
  "no_comments_message = ''*'' @ cross_mark @ '' No comments found for this case number.*''"

text \<open>The tool returns a string in every branch: the message alone.\<close>

definition fetch_case_comments :: "environ \<Rightarrow> network \<Rightarrow> string \<Rightarrow> string io" where
  "fetch_case_comments env net case_number =
     io_bind (get_access_token env net) (\<lambda>(access_token, instance_url).
     io_bind (send net
       (query_request access_token instance_url (case_comments_query case_number)))
       (\<lambda>response.
       if status_code response = 200 then
         io_bind (io_lift (response_json response)) (\<lambda>data.
         io_bind (io_lift (py_get data ''records'' (JArr []))) (\<lambda>case_comments.
           if \<not> py_truthy case_comments then io_return no_comments_message
           else
             io_bind (io_lift (py_iter case_comments)) (\<lambda>comments.
             io_bind (io_lift (comments_loop comments [])) (\<lambda>formatted_comments.
             io_return
               (''*'' @ check_mark @ '' Case Comments Retrieved Successfully!*'' @ NL @ NL
                @ ''*'' @ ticket @ '' Case Number:* '' @ [CHR 0x60] @ case_number
                @ [CHR 0x60] @ NL @ NL
                @ ''*'' @ magnifier_right @ '' Full Comments:* '' @ NL
                @ formatted_comments)))))
       else
         io_return (''*'' @ cross_mark @ '' Error fetching case comments: ''
           @ str_int (status_code response) @ '', '' @ resp_text response @ ''*'')))"

subsection \<open>\<^verbatim>\<open>create_case_in_salesforce\<close>\<close>

definition case_data :: "string \<Rightarrow> string \<Rightarrow> string \<Rightarrow> (string \<times> jvalue) list" where
  "case_data case_subject case_description case_priority =
     [(''Subject'', JStr case_subject),
      (''Description'', JStr case_description),
      (''Priority'', JStr case_priority),
      (''Status'', JStr ''New''),
      (''Origin'', JStr ''Web'')]"

definition create_case_request ::
  "jvalue \<Rightarrow> jvalue \<Rightarrow> string \<Rightarrow> string \<Rightarrow> string \<Rightarrow> request" where
  "create_case_request access_token instance_url case_subject case_description case_priority =
     \<lparr>verb = POST,
      url = py_str instance_url @ ''/services/data/'' @ api_version @ ''/sobjects/Case/'',
      headers = bearer_headers access_token,
      params = [],
      payload = JsonBody (case_data case_subject case_description case_priority)\<rparr>"

definition case_created_message :: "jvalue \<Rightarrow> string \<Rightarrow> string \<Rightarrow> string \<Rightarrow> string" where
  "case_created_message case_id case_subject case_description case_priority =
     ''*'' @ check_mark @ '' Case Created Successfully!*'' @ NL @ NL
     @ ''*'' @ ticket @ '' Case ID:* '' @ [CHR 0x60] @ py_str case_id @ [CHR 0x60] @ NL @ NL
     @ ''*'' @ magnifier_right @ '' Case Details:*'' @ NL
     @ ''Subject: '' @ case_subject @ NL
     @ ''Description: '' @ case_description @ NL
     @ ''Priority: '' @ case_priority"

definition create_case_in_salesforce ::
  "environ \<Rightarrow> network \<Rightarrow> string \<Rightarrow> string \<Rightarrow> string \<Rightarrow> string io" where
  "create_case_in_salesforce env net case_subject case_description case_priority =
     io_bind (get_access_token env net) (\<lambda>(access_token, instance_url).
     io_bind (send net
       (create_case_request access_token instance_url
          case_subject case_description case_priority))
       (\<lambda>response.
       if status_code response = 201 then
         io_bind (io_lift (response_json response)) (\<lambda>created_case.
         io_bind (io_lift (py_get created_case ''id'' JNull)) (\<lambda>case_id.
         io_return
           (case_created_message case_id case_subject case_description case_priority)))
       else
         io_return (''*'' @ cross_mark @ '' Error creating case: ''
           @ str_int (status_code response) @ '', '' @ resp_text response @ ''*'')))"

subsection \<open>\<^verbatim>\<open>execute_soql_query\<close>\<close>

text \<open>
  The function ends with the assignment to \<^verbatim>\<open>records\<close> in the branch of status 200:
  there is no \<^verbatim>\<open>return\<close> and no \<^verbatim>\<open>else\<close>. Both branches fall off the end of the
  function, which returns \<^verbatim>\<open>None\<close> (\<open>JNull\<close> here). \<open>soql_records\<close> is the value
  bound to \<^verbatim>\<open>records\<close>.
\<close>

definition soql_records :: "response \<Rightarrow> pyerr + jvalue" where
  "soql_records response =
     py_bind (response_json response) (\<lambda>data. py_get data ''records'' (JArr []))"

definition execute_soql_query :: "environ \<Rightarrow> network \<Rightarrow> string \<Rightarrow> jvalue io" where
  "execute_soql_query env net soql_query =
     io_bind (get_access_token env net) (\<lambda>(access_token, instance_url).
     io_bind (send net (query_request access_token instance_url soql_query)) (\<lambda>response.
       if status_code response = 200 then
         io_bind (io_lift (soql_records response)) (\<lambda>records. io_return JNull)
       else
         io_return JNull))"

section \<open>\<^verbatim>\<open>tools/opp_salesforce_tools.py\<close>\<close>

type_synonym options = "(int \<times> jvalue) list"

text \<open>
  \<^verbatim>\<open>@tool(...)\<close> binds the name of the function it decorates to a \<^verbatim>\<open>Function\<close> object of
  the agent framework. The object keeps the function as its entrypoint, which is what the
  framework runs when an agent uses the tool; the definitions of the tools in this theory
  are these entrypoints. The object itself is not callable: where the source writes
  \<^verbatim>\<open>name(...)\<close> with the name of a decorated function, the call raises \<^verbatim>\<open>TypeError\<close>
  before anything of the function runs. \<^verbatim>\<open>get_access_token\<close> and
  \<^verbatim>\<open>fetch_opportunity_details\<close> are not decorated and are called as they are.
\<close>

definition call_tool_object :: "'a io \<Rightarrow> 'a io" where
  "call_tool_object entrypoint = io_raise TypeError"

subsection \<open>\<^verbatim>\<open>generate_lifecycle_transition_prompt\<close>\<close>

definition generate_lifecycle_transition_prompt :: "jvalue \<Rightarrow> jvalue \<Rightarrow> string \<Rightarrow> string" where
  "generate_lifecycle_transition_prompt opportunity_name current_stage new_stage =
     NL @ ''    You are a Salesforce assistant. I have an opportunity called '' @ [CHR 0x27]
     @ py_str opportunity_name @ [CHR 0x27] @ '' which is currently in the '' @ [CHR 0x27]
     @ py_str current_stage @ [CHR 0x27] @ '' stage.'' @ NL
     @ ''    The sales team wants to update it to the '' @ [CHR 0x27] @ new_stage @ [CHR 0x27]
     @ '' stage. Please confirm if all necessary conditions are met for this transition.'' @ NL
     @ ''    If so, proceed with the update. If there are any blockers or reasons why this ''
     @ ''transition can'' @ [CHR 0x27] @ ''t happen, provide suggestions to resolve them.'' @ NL
     @ ''    ''"

subsection \<open>\<^verbatim>\<open>fetch_opportunities\<close>\<close>

definition opportunities_query :: string where
  "opportunities_query = ''SELECT Id, Name, StageName, CloseDate, Amount FROM Opportunity''"

text \<open>The text one record adds to the display, from its index and the four fields.\<close>

definition opportunity_entry :: "int \<Rightarrow> jvalue \<Rightarrow> jvalue \<Rightarrow> jvalue \<Rightarrow> jvalue \<Rightarrow> string" where
  "opportunity_entry index name close_date amount stage_name =
     ''*Option '' @ str_int index @ '' - Opportunity Name:* '' @ py_str name @ NL
     @ ''*'' @ calendar @ '' Close Date:* '' @ py_str close_date @ NL
     @ ''*'' @ money_bag @ '' Amount:* '' @ py_str amount @ NL
     @ ''*'' @ bar_chart @ '' Stage:* '' @ py_str stage_name @ NL @ NL"

text \<open>
  The loop \<^verbatim>\<open>for index, record in enumerate(records, start=1)\<close>, with the index of
  the next record, the text and the option mapping built so far. The f-string reads
  \<^verbatim>\<open>Name\<close>, \<^verbatim>\<open>CloseDate\<close>, \<^verbatim>\<open>Amount\<close> and \<^verbatim>\<open>StageName\<close> in this order, then the
  assignment reads \<^verbatim>\<open>Id\<close>.
\<close>

fun opportunities_loop :: "int \<Rightarrow> jvalue list \<Rightarrow> string \<Rightarrow> options \<Rightarrow> pyerr + string \<times> options" where
  "opportunities_loop index [] formatted_opportunities opportunity_options =
     Inr (formatted_opportunities, opportunity_options)"
| "opportunities_loop index (record # rest) formatted_opportunities opportunity_options =
     py_bind (py_getitem record ''Name'') (\<lambda>name.
     py_bind (py_getitem record ''CloseDate'') (\<lambda>close_date.
     py_bind (py_getitem record ''Amount'') (\<lambda>amount.
     py_bind (py_getitem record ''StageName'') (\<lambda>stage_name.
     py_bind (py_getitem record ''Id'') (\<lambda>record_id.
     opportunities_loop (index + 1) rest
       (formatted_opportunities @ opportunity_entry index name close_date amount stage_name)
       (dict_set opportunity_options index record_id))))))"

definition no_opportunities_message :: string where
  "no_opportunities_message = ''*'' @ cross_mark @ '' No opportunities found.*''"

definition opportunities_header :: string where
  "opportunities_header =
     ''*'' @ check_mark @ '' Opportunities Retrieved Successfully!*'' @ NL @ NL"

definition opportunities_error_message :: "response \<Rightarrow> string" where
  "opportunities_error_message response =
     ''*'' @ cross_mark @ '' Error fetching opportunities: ''
     @ str_int (status_code response) @ '', '' @ resp_text response @ ''*''"

definition fetch_opportunities :: "environ \<Rightarrow> network \<Rightarrow> (string \<times> options) io" where
  "fetch_opportunities env net =
     io_bind (get_access_token_opp env net) (\<lambda>(access_token, instance_url).
     io_bind (send net (query_request access_token instance_url opportunities_query))
       (\<lambda>response.
       if status_code response = 200 then
         io_bind (io_lift (response_json response)) (\<lambda>data.
         io_bind (io_lift (py_get data ''records'' (JArr []))) (\<lambda>records.
           if \<not> py_truthy records then io_return (no_opportunities_message, [])
           else
             io_bind (io_lift (py_iter records)) (\<lambda>items.
             io_lift (opportunities_loop 1 items opportunities_header []))))
       else
         io_return (opportunities_error_message response, [])))"

subsection \<open>\<^verbatim>\<open>fetch_opportunity_details\<close> and \<^verbatim>\<open>update_opportunity_stage\<close>\<close>

text \<open>
  The identifier is the value the option mapping holds, that is, whatever the record had
  under \<^verbatim>\<open>Id\<close>; the f-string of the URL formats it.
\<close>

definition fetch_opportunity_details :: "environ \<Rightarrow> network \<Rightarrow> jvalue \<Rightarrow> jvalue io" where
  "fetch_opportunity_details env net opportunity_id =
     io_bind (get_access_token_opp env net) (\<lambda>(access_token, instance_url).
     io_bind (send net
       (sobject_request GET access_token instance_url ''Opportunity''
          (py_str opportunity_id) NoPayload))
       (\<lambda>response.
       if status_code response = 200 then io_lift (response_json response)
       else
         io_raise (Exception (''Error fetching opportunity details: ''
           @ str_int (status_code response) @ '', '' @ resp_text response))))"

definition update_opportunity_stage :: "environ \<Rightarrow> network \<Rightarrow> jvalue \<Rightarrow> string \<Rightarrow> string io" where
  "update_opportunity_stage env net opportunity_id new_stage =
     io_bind (get_access_token_opp env net) (\<lambda>(access_token, instance_url).
     io_bind (send net
       (sobject_request PATCH access_token instance_url ''Opportunity''
          (py_str opportunity_id) (JsonBody [(''StageName'', JStr new_stage)])))
       (\<lambda>response.
       if status_code response = 204 then
         io_return (party_popper @ '' Opportunity stage successfully updated to ''
           @ new_stage @ ''!'')
       else
         io_return (cross_mark @ '' Failed to update stage: ''
           @ str_int (status_code response) @ '', '' @ resp_text response)))"

subsection \<open>\<^verbatim>\<open>validate_and_update_lifecycle_transition\<close>\<close>

definition invalid_option_message :: string where
  "invalid_option_message =
     ''*'' @ cross_mark @ '' Invalid option selected. Please choose a valid option.*''"

definition already_set_message :: "jvalue \<Rightarrow> string \<Rightarrow> string" where
  "already_set_message name new_stage =
     warning_sign @ '' The stage of the opportunity '' @ [CHR 0x22] @ py_str name @ [CHR 0x22]
     @ '' is already set to *'' @ new_stage @ ''*. There'' @ [CHR 0x27]
     @ ''s no need to update!''"

definition enhanced_response ::
  "int \<Rightarrow> jvalue \<Rightarrow> jvalue \<Rightarrow> string \<Rightarrow> string \<Rightarrow> string \<Rightarrow> string" where
  "enhanced_response opportunity_choice amount close_date new_stage lifecycle_prompt
     update_message =
     NL @ ''    '' @ rocket @ '' **Opportunity Lifecycle Transition**:'' @ NL @ NL
     @ ''    '' @ magnifier_left @ '' **Selected Opportunity**: Option ''
     @ str_int opportunity_choice @ NL
     @ ''    '' @ dollar_note @ '' **Opportunity Amount**: '' @ py_str amount @ NL
     @ ''    '' @ calendar @ '' **Close Date**: '' @ py_str close_date @ NL @ NL
     @ ''    '' @ bullseye @ '' **New Stage**: '' @ new_stage @ NL @ NL
     @ ''    '' @ speech_balloon @ '' **Lifecycle Transition Prompt**:'' @ NL
     @ ''    '' @ lifecycle_prompt @ NL @ NL
     @ ''    '' @ check_mark @ '' **Action**: '' @ update_message @ NL
     @ ''    ''"

text \<open>
  The body calls \<^verbatim>\<open>fetch_opportunities()\<close> (line 173) and
  \<^verbatim>\<open>update_opportunity_stage(...)\<close> (line 197) by their names, which the decorator has
  bound to tool objects; \<^verbatim>\<open>fetch_opportunity_details\<close> (line 186) is a plain function.
  \<^verbatim>\<open>opportunity_choice not in opportunity_options\<close> and the subscript that follows are
  one lookup in the mapping. \<^verbatim>\<open>current_stage == new_stage\<close> compares a JSON value with
  a \<^verbatim>\<open>str\<close>: they are equal when the value is that string.
\<close>

definition validate_and_update_lifecycle_transition ::
  "environ \<Rightarrow> network \<Rightarrow> int \<Rightarrow> string \<Rightarrow> string io" where
  "validate_and_update_lifecycle_transition env net opportunity_choice new_stage =
     io_bind (call_tool_object (fetch_opportunities env net))
       (\<lambda>(formatted_opportunities, opportunity_options).
       if opportunity_options = [] then io_return formatted_opportunities
       else
         (case map_of opportunity_options opportunity_choice of
            None \<Rightarrow> io_return invalid_option_message
          | Some opportunity_id \<Rightarrow>
              io_bind (fetch_opportunity_details env net opportunity_id)
                (\<lambda>opportunity_details.
              io_bind (io_lift
                (py_get opportunity_details ''StageName'' (JStr ''Not Available'')))
                (\<lambda>current_stage.
                if current_stage = JStr new_stage then
                  io_bind (io_lift (py_getitem opportunity_details ''Name'')) (\<lambda>name.
                  io_return (already_set_message name new_stage))
                else
                  io_bind (io_lift (py_getitem opportunity_details ''Name'')) (\<lambda>name.
                  io_bind (call_tool_object
                    (update_opportunity_stage env net opportunity_id new_stage))
                    (\<lambda>update_message.
                  io_bind (io_lift
                    (py_get opportunity_details ''Amount'' (JStr ''Not Available'')))
                    (\<lambda>amount.
                  io_bind (io_lift
                    (py_get opportunity_details ''CloseDate'' (JStr ''Not Available'')))
                    (\<lambda>close_date.
                  io_return
                    (enhanced_response opportunity_choice amount close_date new_stage
                       (generate_lifecycle_transition_prompt name current_stage new_stage)
                       update_message)))))))))"

subsection \<open>\<^verbatim>\<open>fetch_leads\<close>\<close>

definition leads_query :: string where
  "leads_query = ''SELECT Id, FirstName, LastName, Company, Email, LeadSource FROM Lead''"

definition lead_entry :: "int \<Rightarrow> jvalue \<Rightarrow> jvalue \<Rightarrow> jvalue \<Rightarrow> jvalue \<Rightarrow> jvalue \<Rightarrow> string" where
  "lead_entry index first_name last_name company email lead_source =
     ''*Option '' @ str_int index @ '' - Lead Name:* '' @ py_str first_name @ '' ''
     @ py_str last_name @ NL
     @ ''*'' @ office @ '' Company:* '' @ py_str company @ NL
     @ ''*'' @ e_mail @ '' Email:* '' @ py_str email @ NL
     @ ''*'' @ link_sign @ '' Lead Source:* '' @ py_str lead_source @ NL @ NL"

fun leads_loop :: "int \<Rightarrow> jvalue list \<Rightarrow> string \<Rightarrow> options \<Rightarrow> pyerr + string \<times> options" where
  "leads_loop index [] formatted_leads lead_options = Inr (formatted_leads, lead_options)"
| "leads_loop index (record # rest) formatted_leads lead_options =
     py_bind (py_get record ''FirstName'' (JStr [])) (\<lambda>first_name.
     py_bind (py_get record ''LastName'' (JStr [])) (\<lambda>last_name.
     py_bind (py_get record ''Company'' (JStr [])) (\<lambda>company.
     py_bind (py_get record ''Email'' (JStr [])) (\<lambda>email.
     py_bind (py_get record ''LeadSource'' (JStr [])) (\<lambda>lead_source.
     py_bind (py_getitem record ''Id'') (\<lambda>record_id.
     leads_loop (index + 1) rest
       (formatted_leads @ lead_entry index first_name last_name company email lead_source)
       (dict_set lead_options index record_id)))))))"

definition no_leads_message :: string where
  "no_leads_message = ''*'' @ cross_mark @ '' No leads found.*''"

definition leads_header :: string where
  "leads_header = ''*'' @ check_mark @ '' Leads Retrieved Successfully!*'' @ NL @ NL"

definition fetch_leads :: "environ \<Rightarrow> network \<Rightarrow> (string \<times> options) io" where
  "fetch_leads env net =
     io_bind (get_access_token_opp env net) (\<lambda>(access_token, instance_url).
     io_bind (send net (query_request access_token instance_url leads_query)) (\<lambda>response.
       if status_code response = 200 then
         io_bind (io_lift (response_json response)) (\<lambda>data.
         io_bind (io_lift (py_get data ''records'' (JArr []))) (\<lambda>records.
           if \<not> py_truthy records then io_return (no_leads_message, [])
           else
             io_bind (io_lift (py_iter records)) (\<lambda>items.
             io_lift (leads_loop 1 items leads_header []))))
       else
         io_return (''*'' @ cross_mark @ '' Error fetching leads: ''
           @ str_int (status_code response) @ '', '' @ resp_text response @ ''*'', [])))"

subsection \<open>\<^verbatim>\<open>get_lead_details\<close> and \<^verbatim>\<open>get_lead_email_info\<close>\<close>

definition lead_details_message ::
  "jvalue \<Rightarrow> jvalue \<Rightarrow> jvalue \<Rightarrow> jvalue \<Rightarrow> jvalue \<Rightarrow> jvalue \<Rightarrow> jvalue \<Rightarrow> string" where
  "lead_details_message first_name last_name company email phone lead_source status =
     NL @ ''        '' @ bar_chart @ '' **Lead Details**:'' @ NL
     @ ''        '' @ NL
     @ ''        '' @ bust @ '' **Name**: '' @ py_str first_name @ '' '' @ py_str last_name @ NL
     @ ''        '' @ office @ '' **Company**: '' @ py_str company @ NL
     @ ''        '' @ e_mail @ '' **Email**: '' @ py_str email @ NL
     @ ''        '' @ mobile @ '' **Phone**: '' @ py_str phone @ NL
     @ ''        '' @ link_sign @ '' **Lead Source**: '' @ py_str lead_source @ NL
     @ ''        '' @ trophy @ '' **Status**: '' @ py_str status @ NL
     @ ''        ''"

definition lead_details_error_message :: "response \<Rightarrow> string" where
  "lead_details_error_message response =
     ''*'' @ cross_mark @ '' Error fetching lead details: ''
     @ str_int (status_code response) @ '', '' @ resp_text response @ ''*''"

definition get_lead_details :: "environ \<Rightarrow> network \<Rightarrow> string \<Rightarrow> string io" where
  "get_lead_details env net lead_id =
     io_bind (get_access_token_opp env net) (\<lambda>(access_token, instance_url).
     io_bind (send net
       (sobject_request GET access_token instance_url ''Lead'' lead_id NoPayload))
       (\<lambda>response.
       if status_code response = 200 then
         io_bind (io_lift (response_json response)) (\<lambda>lead_details.
         io_bind (io_lift (py_get lead_details ''FirstName'' (JStr []))) (\<lambda>first_name.
         io_bind (io_lift (py_get lead_details ''LastName'' (JStr []))) (\<lambda>last_name.
         io_bind (io_lift (py_get lead_details ''Company'' (JStr []))) (\<lambda>company.
         io_bind (io_lift (py_get lead_details ''Email'' (JStr []))) (\<lambda>email.
         io_bind (io_lift (py_get lead_details ''Phone'' (JStr []))) (\<lambda>phone.
         io_bind (io_lift (py_get lead_details ''LeadSource'' (JStr []))) (\<lambda>lead_source.
         io_bind (io_lift (py_get lead_details ''Status'' (JStr []))) (\<lambda>status.
         io_return
           (lead_details_message first_name last_name company email phone lead_source
              status)))))))))
       else
         io_return (lead_details_error_message response)))"

definition get_lead_email_info ::
  "environ \<Rightarrow> network \<Rightarrow> string \<Rightarrow> (string \<times> jvalue) list io" where
  "get_lead_email_info env net lead_id =
     io_bind (get_access_token_opp env net) (\<lambda>(access_token, instance_url).
     io_bind (send net
       (sobject_request GET access_token instance_url ''Lead'' lead_id NoPayload))
       (\<lambda>response.
       if status_code response = 200 then
         io_bind (io_lift (response_json response)) (\<lambda>lead_details.
         io_bind (io_lift (py_get lead_details ''FirstName'' (JStr []))) (\<lambda>first_name.
         io_bind (io_lift (py_get lead_details ''LastName'' (JStr []))) (\<lambda>last_name.
         io_bind (io_lift (py_get lead_details ''Company'' (JStr []))) (\<lambda>company.
         io_bind (io_lift (py_get lead_details ''LeadSource'' (JStr []))) (\<lambda>lead_source.
         io_bind (io_lift (py_get lead_details ''Email'' (JStr []))) (\<lambda>email.
         io_return
           [(''first_name'', first_name),
            (''last_name'', last_name),
            (''company'', company),
            (''lead_source'', lead_source),
            (''email'', email)]))))))
       else
         io_raise (Exception (''Error fetching lead details: ''
           @ str_int (status_code response) @ '', '' @ resp_text response))))"

section \<open>The listings in closed form\<close>

text \<open>
  What the specification says of the record formatter, written without the loop: the
  records are numbered from 1 in the order they came, the display is the header followed
  by one block per record under its number, and the option mapping sends each number to
  the \<^verbatim>\<open>Id\<close> of its record. \<open>field_of\<close> reads a field that is there;
  \<open>field_or_empty\<close> is the text of a field, empty when the record does not have it.
\<close>

definition has_key :: "jvalue \<Rightarrow> string \<Rightarrow> bool" where
  "has_key record k = (case record of JObj kvs \<Rightarrow> map_of kvs k \<noteq> None | _ \<Rightarrow> False)"

definition is_object :: "jvalue \<Rightarrow> bool" where
  "is_object v = (case v of JObj kvs \<Rightarrow> True | _ \<Rightarrow> False)"

definition field_of :: "jvalue \<Rightarrow> string \<Rightarrow> jvalue" where
  "field_of record k = (case py_getitem record k of Inr v \<Rightarrow> v | Inl e \<Rightarrow> JNull)"

definition field_or_empty :: "jvalue \<Rightarrow> string \<Rightarrow> string" where
  "field_or_empty record k =
     (case record of
        JObj kvs \<Rightarrow> (case map_of kvs k of Some v \<Rightarrow> py_str v | None \<Rightarrow> [])
      | _ \<Rightarrow> [])"

definition numbered :: "'a list \<Rightarrow> (int \<times> 'a) list" where
  "numbered xs = zip [1..int (length xs)] xs"

definition options_of :: "jvalue list \<Rightarrow> options" where
  "options_of records =
     map (\<lambda>(index, record). (index, field_of record ''Id'')) (numbered records)"

definition is_opportunity_record :: "jvalue \<Rightarrow> bool" where
  "is_opportunity_record record \<longleftrightarrow>
     has_key record ''Id'' \<and> has_key record ''Name'' \<and> has_key record ''StageName''
     \<and> has_key record ''CloseDate'' \<and> has_key record ''Amount''"

definition opportunity_option :: "int \<Rightarrow> jvalue \<Rightarrow> string" where
  "opportunity_option index record =
     ''*Option '' @ str_int index @ '' - Opportunity Name:* ''
       @ py_str (field_of record ''Name'') @ NL
     @ ''*'' @ calendar @ '' Close Date:* '' @ py_str (field_of record ''CloseDate'') @ NL
     @ ''*'' @ money_bag @ '' Amount:* '' @ py_str (field_of record ''Amount'') @ NL
     @ ''*'' @ bar_chart @ '' Stage:* '' @ py_str (field_of record ''StageName'') @ NL @ NL"

definition opportunities_text :: "jvalue list \<Rightarrow> string" where
  "opportunities_text records =
     ''*'' @ check_mark @ '' Opportunities Retrieved Successfully!*'' @ NL @ NL
     @ concat (map (\<lambda>(index, record). opportunity_option index record) (numbered records))"

definition lead_option :: "int \<Rightarrow> jvalue \<Rightarrow> string" where
  "lead_option index record =
     ''*Option '' @ str_int index @ '' - Lead Name:* '' @ field_or_empty record ''FirstName''
       @ '' '' @ field_or_empty record ''LastName'' @ NL
     @ ''*'' @ office @ '' Company:* '' @ field_or_empty record ''Company'' @ NL
     @ ''*'' @ e_mail @ '' Email:* '' @ field_or_empty record ''Email'' @ NL
     @ ''*'' @ link_sign @ '' Lead Source:* '' @ field_or_empty record ''LeadSource'' @ NL @ NL"

definition leads_text :: "jvalue list \<Rightarrow> string" where
  "leads_text records =
     ''*'' @ check_mark @ '' Leads Retrieved Successfully!*'' @ NL @ NL
     @ concat (map (\<lambda>(index, record). lead_option index record) (numbered records))"

section \<open>Sample environment, network and responses\<close>

text \<open>
  The concrete inputs the properties below are instantiated at. The network of a sample
  is scripted: it answers the \<open>n\<close>-th request with the \<open>n\<close>-th response of a list, and
  the connection fails once the list is exhausted. The body text of a sample response is
  the JSON text of its value (the strings of the samples need no escaping).
\<close>

definition demo_env :: environ where
  "demo_env = map_of
     [(''SF_CONSUMER_KEY'', ''key''),
      (''SF_CONSUMER_SECRET'', ''secret''),
      (''SF_USERNAME'', ''user@example.com''),
      (''SF_PASSWORD'', ''pass''),
      (''SF_SECURITY_TOKEN'', ''tok'')]"

definition scripted :: "response list \<Rightarrow> network" where
  "scripted rs log rq =
     (if length log < length rs then Inr (rs ! length log) else Inl ConnectionError)"

fun json_text :: "jvalue \<Rightarrow> string"
  and json_items :: "jvalue list \<Rightarrow> string"
  and json_fields :: "(string \<times> jvalue) list \<Rightarrow> string" where
  "json_text JNull = ''null''"
| "json_text (JBool b) = (if b then ''true'' else ''false'')"
| "json_text (JInt i) = str_int i"
| "json_text (JFloat r) = r"
| "json_text (JStr s) = [CHR 0x22] @ s @ [CHR 0x22]"
| "json_text (JArr xs) = ''['' @ json_items xs @ '']''"
| "json_text (JObj kvs) = ''{'' @ json_fields kvs @ ''}''"
| "json_items [] = []"
| "json_items [x] = json_text x"
| "json_items (x # y # xs) = json_text x @ '', '' @ json_items (y # xs)"
| "json_fields [] = []"
| "json_fields [(k, v)] = [CHR 0x22] @ k @ [CHR 0x22] @ '': '' @ json_text v"
| "json_fields ((k, v) # kv # kvs) =
     [CHR 0x22] @ k @ [CHR 0x22] @ '': '' @ json_text v @ '', '' @ json_fields (kv # kvs)"

definition json_response :: "int \<Rightarrow> jvalue \<Rightarrow> response" where
  "json_response status v = \<lparr>status_code = status, resp_text = json_text v, json = Some v\<rparr>"

definition token_response :: response where
  "token_response = json_response 200
     (JObj [(''access_token'', JStr ''00Dxx!AQ''),
            (''instance_url'', JStr ''https://acme.my.salesforce.com'')])"

definition invalid_grant_response :: response where
  "invalid_grant_response =
     \<lparr>status_code = 400, resp_text = ''invalid_grant'', json = None\<rparr>"

definition not_found_response :: response where
  "not_found_response = \<lparr>status_code = 404, resp_text = ''NOT_FOUND'', json = None\<rparr>"

definition case_created_response :: response where
  "case_created_response = json_response 201
     (JObj [(''id'', JStr ''500Z''), (''success'', JBool True), (''errors'', JArr [])])"

definition no_records_response :: response where
  "no_records_response = json_response 200
     (JObj [(''totalSize'', JInt 0), (''done'', JBool True), (''records'', JArr [])])"

definition acme_deal :: jvalue where
  "acme_deal =
     JObj [(''Id'', JStr ''006A''), (''Name'', JStr ''Acme Deal''),
           (''StageName'', JStr ''Prospecting''), (''CloseDate'', JStr ''2024-01-01''),
           (''Amount'', JInt 1000)]"

definition beta_deal :: jvalue where
  "beta_deal =
     JObj [(''Id'', JStr ''006B''), (''Name'', JStr ''Beta Deal''),
           (''StageName'', JStr ''Closed Won''), (''CloseDate'', JStr ''2024-02-01''),
           (''Amount'', JInt 2000)]"

definition opportunities_response :: response where
  "opportunities_response = json_response 200
     (JObj [(''totalSize'', JInt 2), (''done'', JBool True),
        (''records'', JArr [acme_deal, beta_deal])])"

definition ada_lead :: jvalue where
  "ada_lead =
     JObj [(''Id'', JStr ''00Q1''), (''FirstName'', JStr ''Ada''),
           (''LastName'', JStr ''Lovelace''), (''Company'', JStr ''Analytical''),
           (''Email'', JStr ''ada@example.com''), (''LeadSource'', JStr ''Web'')]"

definition hopper_lead :: jvalue where
  "hopper_lead = JObj [(''Id'', JStr ''00Q2''), (''LastName'', JStr ''Hopper'')]"

definition leads_response :: response where
  "leads_response = json_response 200
     (JObj [(''totalSize'', JInt 2), (''done'', JBool True),
            (''records'', JArr [ada_lead, hopper_lead])])"

definition lead_without_id_response :: response where
  "lead_without_id_response = json_response 200
     (JObj [(''totalSize'', JInt 2), (''done'', JBool True),
            (''records'', JArr [ada_lead, JObj [(''LastName'', JStr ''Hopper'')]])])"

text \<open>A network that answers by the request: the token, then each list by its query.\<close>

definition listing_net :: network where
  "listing_net log rq =
     (if url rq = auth_url then Inr token_response
      else if params rq = [(''q'', opportunities_query)] then Inr opportunities_response
      else if params rq = [(''q'', leads_query)] then Inr leads_response
      else Inr not_found_response)"

definition beta_deal_response :: response where
  "beta_deal_response = json_response 200 beta_deal"

section \<open>Running the tools\<close>

lemma io_bind_Inr: "m log = (Inr a, log') \<Longrightarrow> io_bind m f log = f a log'"
  by (simp add: io_bind_def)

lemma io_bind_Inl: "m log = (Inl e, log') \<Longrightarrow> io_bind m f log = (Inl e, log')"
  by (simp add: io_bind_def)

lemma io_bind_lift:
  "io_bind (io_lift r) f log = (case r of Inl e \<Rightarrow> (Inl e, log) | Inr a \<Rightarrow> f a log)"
  by (simp add: io_bind_def io_lift_def split: sum.splits)

lemma io_bind_return: "io_bind (io_return a) f log = f a log"
  by (simp add: io_bind_def io_return_def)

lemma io_bind_send:
  "io_bind (send net rq) f log =
     (case net log rq of Inl e \<Rightarrow> (Inl e, log @ [rq]) | Inr r \<Rightarrow> f r (log @ [rq]))"
  by (simp add: io_bind_def send_def split: sum.splits)

section \<open>Authentication failures\<close>

text \<open>
  Claim C7. When the token endpoint answers with a status other than 200, both
  \<^verbatim>\<open>get_access_token\<close> functions raise an exception whose message is the fixed prefix
  followed by the status code, a comma and the text of the body, unchanged. The log shows
  the one request made: there is no second attempt.
\<close>

theorem get_access_token_non_200:
  assumes "getenv_concat (env ''SF_PASSWORD'') (env ''SF_SECURITY_TOKEN'') = Inr password"
    and "net log (token_request env password) = Inr response"
    and "status_code response \<noteq> 200"
  shows "get_access_token env net log =
           (Inl (Exception (''Error fetching access token: ''
              @ str_int (status_code response) @ '', '' @ resp_text response)),
            log @ [token_request env password])
       \<and> get_access_token_opp env net log =
           (Inl (Exception (''Error fetching access token: ''
              @ str_int (status_code response) @ '', '' @ resp_text response)),
            log @ [token_request env password])"
  using assms
  by (simp add: get_access_token_def get_access_token_opp_def io_bind_lift io_bind_send
      io_raise_def)

theorem get_access_token_non_200_witness:
  "get_access_token demo_env (scripted [invalid_grant_response]) []
     = (Inl (Exception ''Error fetching access token: 400, invalid_grant''),
        [token_request demo_env ''passtok''])
   \<and> get_access_token_opp demo_env (scripted [invalid_grant_response]) []
     = (Inl (Exception ''Error fetching access token: 400, invalid_grant''),
        [token_request demo_env ''passtok''])"
  using get_access_token_non_200 [of demo_env "''passtok''"
      "scripted [invalid_grant_response]" "[]" invalid_grant_response]
  by (simp add: demo_env_def getenv_concat_def scripted_def invalid_grant_response_def
      str_int_def dec_nat.simps)

subsection \<open>Authentication of the samples\<close>

lemma demo_auth:
  "get_access_token demo_env (scripted (token_response # rs)) [] =
     (Inr (JStr ''00Dxx!AQ'', JStr ''https://acme.my.salesforce.com''),
      [] @ [token_request demo_env ''passtok''])"
  by (simp add: get_access_token_def io_bind_lift io_bind_send io_return_def demo_env_def
      getenv_concat_def scripted_def token_response_def json_response_def response_json_def
      py_get_def)

lemma demo_auth_opp:
  "get_access_token_opp demo_env (scripted (token_response # rs)) [] =
     (Inr (JStr ''00Dxx!AQ'', JStr ''https://acme.my.salesforce.com''),
      [] @ [token_request demo_env ''passtok''])"
  by (simp add: get_access_token_opp_def io_bind_lift io_bind_send io_return_def demo_env_def
      getenv_concat_def scripted_def token_response_def json_response_def response_json_def
      py_get_def)

section \<open>Case creation\<close>

text \<open>
  Claim C8. Once authenticated, \<^verbatim>\<open>create_case_in_salesforce\<close> sends one POST whose
  JSON body is exactly the five fields \<^verbatim>\<open>Subject\<close>, \<^verbatim>\<open>Description\<close>, \<^verbatim>\<open>Priority\<close>,
  \<^verbatim>\<open>Status\<close> = New and \<^verbatim>\<open>Origin\<close> = Web. When the response has status 201 and its body
  is an object with an \<^verbatim>\<open>id\<close>, the result is the success message, which contains that
  id and the subject, description and priority as given. On any other status the result
  is the formatted error string with the status and the body text, returned as a value,
  not raised.
\<close>

theorem create_case_result:
  assumes auth: "get_access_token env net log =
      (Inr (access_token, instance_url), log @ [token_request env password])"
    and resp: "net (log @ [token_request env password])
      (create_case_request access_token instance_url subject description priority) =
        Inr response"
  shows "verb (create_case_request access_token instance_url subject description priority)
        = POST
    \<and> payload (create_case_request access_token instance_url subject description priority) =
        JsonBody [(''Subject'', JStr subject), (''Description'', JStr description),
          (''Priority'', JStr priority), (''Status'', JStr ''New''), (''Origin'', JStr ''Web'')]
    \<and> snd (create_case_in_salesforce env net subject description priority log) =
        log @ [token_request env password,
          create_case_request access_token instance_url subject description priority]
    \<and> (status_code response = 201 \<and> json response = Some (JObj created)
          \<and> map_of created ''id'' = Some case_id \<longrightarrow>
        fst (create_case_in_salesforce env net subject description priority log) =
          Inr (''*'' @ check_mark @ '' Case Created Successfully!*'' @ NL @ NL
            @ ''*'' @ ticket @ '' Case ID:* '' @ [CHR 0x60] @ py_str case_id @ [CHR 0x60]
            @ NL @ NL
            @ ''*'' @ magnifier_right @ '' Case Details:*'' @ NL
            @ ''Subject: '' @ subject @ NL
            @ ''Description: '' @ description @ NL
            @ ''Priority: '' @ priority))
    \<and> (status_code response \<noteq> 201 \<longrightarrow>
        fst (create_case_in_salesforce env net subject description priority log) =
          Inr (''*'' @ cross_mark @ '' Error creating case: ''
            @ str_int (status_code response) @ '', '' @ resp_text response @ ''*''))"
  using assms
  by (auto simp add: create_case_in_salesforce_def create_case_request_def case_data_def
      io_bind_Inr io_bind_send io_bind_lift io_return_def response_json_def py_get_def
      case_created_message_def split: sum.splits option.splits)

theorem create_case_result_witness:
  "create_case_in_salesforce demo_env (scripted [token_response, case_created_response])
     ''X'' ''Y'' ''High'' [] =
     (Inr (''*'' @ check_mark @ '' Case Created Successfully!*'' @ NL @ NL
        @ ''*'' @ ticket @ '' Case ID:* '' @ [CHR 0x60] @ ''500Z'' @ [CHR 0x60] @ NL @ NL
        @ ''*'' @ magnifier_right @ '' Case Details:*'' @ NL
        @ ''Subject: X'' @ NL @ ''Description: Y'' @ NL @ ''Priority: High''),
      [token_request demo_env ''passtok'',
       create_case_request (JStr ''00Dxx!AQ'') (JStr ''https://acme.my.salesforce.com'')
         ''X'' ''Y'' ''High''])
   \<and> create_case_in_salesforce demo_env (scripted [token_response, not_found_response])
     ''X'' ''Y'' ''High'' [] =
     (Inr (''*'' @ cross_mark @ '' Error creating case: 404, NOT_FOUND*''),
      [token_request demo_env ''passtok'',
       create_case_request (JStr ''00Dxx!AQ'') (JStr ''https://acme.my.salesforce.com'')
         ''X'' ''Y'' ''High''])"
proof -
  have a: "net = scripted [token_response, r] \<Longrightarrow>
      net ([] @ [token_request demo_env ''passtok''])
        (create_case_request (JStr ''00Dxx!AQ'') (JStr ''https://acme.my.salesforce.com'')
           ''X'' ''Y'' ''High'') = Inr r" for net r
    by (simp add: scripted_def)
  show ?thesis
    using create_case_result [OF demo_auth a [OF refl], of case_created_response
        "[(''id'', JStr ''500Z''), (''success'', JBool True), (''errors'', JArr [])]"
        "JStr ''500Z''"]
      create_case_result [OF demo_auth a [OF refl], of not_found_response]
    by (simp add: case_created_response_def not_found_response_def json_response_def
        prod_eq_iff py_str_def str_int_def dec_nat.simps)
qed

section \<open>The workflow calls a tool object\<close>

text \<open>
  The first statement of \<^verbatim>\<open>validate_and_update_lifecycle_transition\<close> calls
  \<^verbatim>\<open>fetch_opportunities\<close> by its name. The call raises, whatever the arguments and the
  network, and the log is left as it was: no request is issued.
\<close>

lemma workflow_raises:
  "validate_and_update_lifecycle_transition env net opportunity_choice new_stage log =
     (Inl TypeError, log)"
  by (simp add: validate_and_update_lifecycle_transition_def call_tool_object_def
      io_bind_def io_raise_def)

section \<open>Failure of the opportunity query\<close>

text \<open>
  When the list query is answered with a status other than 200, the tool
  \<^verbatim>\<open>fetch_opportunities\<close> returns the formatted error string with an empty option
  mapping, after the token request and the query.
\<close>

lemma fetch_opportunities_query_failure:
  assumes auth: "get_access_token_opp env net log =
      (Inr (access_token, instance_url), log @ [token_request env password])"
    and resp: "net (log @ [token_request env password])
      (query_request access_token instance_url opportunities_query) = Inr response"
    and status: "status_code response \<noteq> 200"
  shows "fetch_opportunities env net log =
      (Inr (''*'' @ cross_mark @ '' Error fetching opportunities: ''
          @ str_int (status_code response) @ '', '' @ resp_text response @ ''*'', []),
       log @ [token_request env password,
         query_request access_token instance_url opportunities_query])"
  using assms
  by (simp add: fetch_opportunities_def io_bind_Inr io_bind_send io_return_def
      opportunities_error_message_def)

text \<open>
  Claim C9. On a status other than 200 for the list query, \<^verbatim>\<open>fetch_opportunities\<close> is to
  return the error string with an empty mapping, and the workflow is to return that
  string through its empty-options exit, without a fetch by identifier or a PATCH. The
  tool does its part. The workflow does not: on the sample where the query is answered
  404 it raises \<^verbatim>\<open>TypeError\<close> at its call of \<^verbatim>\<open>fetch_opportunities\<close> and returns
  nothing, the query itself never being sent.
\<close>

theorem query_failure_workflow_raises:
  "fetch_opportunities demo_env (scripted [token_response, not_found_response]) [] =
      (Inr (''*'' @ cross_mark @ '' Error fetching opportunities: 404, NOT_FOUND*'', []),
       [token_request demo_env ''passtok'',
        query_request (JStr ''00Dxx!AQ'') (JStr ''https://acme.my.salesforce.com'')
          opportunities_query])
   \<and> validate_and_update_lifecycle_transition demo_env
        (scripted [token_response, not_found_response]) 1 ''Closed Won'' [] =
      (Inl TypeError, [])"
proof -
  have a: "scripted [token_response, not_found_response]
      ([] @ [token_request demo_env ''passtok''])
      (query_request (JStr ''00Dxx!AQ'') (JStr ''https://acme.my.salesforce.com'')
         opportunities_query) = Inr not_found_response"
    by (simp add: scripted_def)
  have b: "status_code not_found_response \<noteq> 200"
    by (simp add: not_found_response_def)
  show ?thesis
    using fetch_opportunities_query_failure [OF demo_auth_opp a b]
    by (simp add: workflow_raises not_found_response_def str_int_def dec_nat.simps)
qed

section \<open>Fetching one record by its identifier\<close>

text \<open>
  Claim C4, the part the code does not have: \<^verbatim>\<open>get_lead_details\<close> answers a 404 with a
  returned string, it raises nothing.
\<close>

theorem get_lead_details_returns_error_string:
  "get_lead_details demo_env (scripted [token_response, not_found_response]) ''00Q1'' [] =
     (Inr (''*'' @ cross_mark @ '' Error fetching lead details: 404, NOT_FOUND*''),
      [token_request demo_env ''passtok'',
       sobject_request GET (JStr ''00Dxx!AQ'') (JStr ''https://acme.my.salesforce.com'')
         ''Lead'' ''00Q1'' NoPayload])"
proof -
  have a: "scripted [token_response, not_found_response]
      ([] @ [token_request demo_env ''passtok'']) rq = Inr not_found_response" for rq
    by (simp add: scripted_def)
  show ?thesis
    using demo_auth_opp [of "[not_found_response]"] a
    by (simp add: get_lead_details_def io_bind_Inr io_bind_send
        io_return_def lead_details_error_message_def not_found_response_def str_int_def
        dec_nat.simps)
qed

text \<open>
  Claim C4, as the code has it. On a status other than 200, \<^verbatim>\<open>fetch_opportunity_details\<close>
  and \<^verbatim>\<open>get_lead_email_info\<close> raise an exception whose message carries the status code
  and the body text; \<^verbatim>\<open>get_lead_details\<close>, the tool that displays a lead, returns the
  formatted error string instead.
\<close>

theorem fetch_by_id_non_200:
  assumes auth: "get_access_token_opp env net log =
      (Inr (access_token, instance_url), log @ [token_request env password])"
    and resp_opp: "net (log @ [token_request env password])
      (sobject_request GET access_token instance_url ''Opportunity''
         (py_str opportunity_id) NoPayload) = Inr opp_response"
    and status_opp: "status_code opp_response \<noteq> 200"
    and resp_lead: "net (log @ [token_request env password])
      (sobject_request GET access_token instance_url ''Lead'' lead_id NoPayload) =
        Inr lead_response"
    and status_lead: "status_code lead_response \<noteq> 200"
  shows "fetch_opportunity_details env net opportunity_id log =
      (Inl (Exception (''Error fetching opportunity details: ''
          @ str_int (status_code opp_response) @ '', '' @ resp_text opp_response)),
       log @ [token_request env password,
         sobject_request GET access_token instance_url ''Opportunity''
           (py_str opportunity_id) NoPayload])
    \<and> get_lead_email_info env net lead_id log =
      (Inl (Exception (''Error fetching lead details: ''
          @ str_int (status_code lead_response) @ '', '' @ resp_text lead_response)),
       log @ [token_request env password,
         sobject_request GET access_token instance_url ''Lead'' lead_id NoPayload])
    \<and> get_lead_details env net lead_id log =
      (Inr (''*'' @ cross_mark @ '' Error fetching lead details: ''
          @ str_int (status_code lead_response) @ '', '' @ resp_text lead_response @ ''*''),
       log @ [token_request env password,
         sobject_request GET access_token instance_url ''Lead'' lead_id NoPayload])"
  using assms
  by (simp add: fetch_opportunity_details_def get_lead_email_info_def get_lead_details_def
      io_bind_Inr io_bind_send io_return_def io_raise_def lead_details_error_message_def)

theorem fetch_by_id_non_200_witness:
  "fetch_opportunity_details demo_env (scripted [token_response, not_found_response])
      (JStr ''006A'') [] =
      (Inl (Exception ''Error fetching opportunity details: 404, NOT_FOUND''),
       [token_request demo_env ''passtok'',
        sobject_request GET (JStr ''00Dxx!AQ'') (JStr ''https://acme.my.salesforce.com'')
          ''Opportunity'' ''006A'' NoPayload])
   \<and> get_lead_email_info demo_env (scripted [token_response, not_found_response])
      ''00Q1'' [] =
      (Inl (Exception ''Error fetching lead details: 404, NOT_FOUND''),
       [token_request demo_env ''passtok'',
        sobject_request GET (JStr ''00Dxx!AQ'') (JStr ''https://acme.my.salesforce.com'')
          ''Lead'' ''00Q1'' NoPayload])"
proof -
  have a: "scripted [token_response, not_found_response]
      ([] @ [token_request demo_env ''passtok'']) rq = Inr not_found_response" for rq
    by (simp add: scripted_def)
  have b: "status_code not_found_response \<noteq> 200"
    by (simp add: not_found_response_def)
  show ?thesis
    using fetch_by_id_non_200 [OF demo_auth_opp a b a b, of "JStr ''006A''" "''00Q1''"]
    by (simp add: not_found_response_def str_int_def dec_nat.simps py_str_def)
qed

section \<open>The query executor\<close>

text \<open>
  Claim C3. \<^verbatim>\<open>execute_soql_query\<close> is to return the parsed records of a 200 response
  (none when the body has no \<^verbatim>\<open>records\<close>) and to fail with the status and the body on
  any other status; its docstring says it returns the result of the query. The function
  of the source stops at the assignment to \<^verbatim>\<open>records\<close>, so it does neither. Evaluated
  on the samples: a 404 makes it return \<^verbatim>\<open>None\<close> instead of failing, and on a 200
  whose body has two records it reads the two records and returns \<^verbatim>\<open>None\<close>.
\<close>

theorem execute_soql_query_returns_none:
  "execute_soql_query demo_env (scripted [token_response, not_found_response])
      ''SELECT Id FROM Lead'' [] =
     (Inr JNull,
      [token_request demo_env ''passtok'',
       query_request (JStr ''00Dxx!AQ'') (JStr ''https://acme.my.salesforce.com'')
         ''SELECT Id FROM Lead''])
   \<and> soql_records opportunities_response =
     Inr (JArr [acme_deal, beta_deal])
   \<and> execute_soql_query demo_env (scripted [token_response, opportunities_response])
      opportunities_query [] =
     (Inr JNull,
      [token_request demo_env ''passtok'',
       query_request (JStr ''00Dxx!AQ'') (JStr ''https://acme.my.salesforce.com'')
         opportunities_query])"
proof -
  have a: "scripted [token_response, r]
      ([] @ [token_request demo_env ''passtok'']) rq = Inr r" for rq r
    by (simp add: scripted_def)
  have r: "soql_records opportunities_response =
     Inr (JArr [acme_deal, beta_deal])"
    by (simp add: soql_records_def opportunities_response_def json_response_def
        response_json_def py_bind_def py_get_def)
  have s: "status_code opportunities_response = 200" "status_code not_found_response = 404"
    by (simp_all add: opportunities_response_def json_response_def not_found_response_def)
  show ?thesis
    using demo_auth [of "[not_found_response]"] demo_auth [of "[opportunities_response]"] a
    by (simp add: execute_soql_query_def io_bind_Inr io_bind_send
        io_return_def io_bind_lift r s)
qed

text \<open>
  What the function does before it stops, for every input. Once authenticated it issues
  one GET on the query endpoint. On a status 200 whose body is a JSON object the value it
  binds to \<^verbatim>\<open>records\<close> is the array of the body, and the empty list when the body has
  none, and the call raises nothing. On any other status the call raises nothing either.
\<close>

theorem execute_soql_query_reads_records:
  assumes auth: "get_access_token env net log =
      (Inr (access_token, instance_url), log @ [token_request env password])"
    and resp: "net (log @ [token_request env password])
      (query_request access_token instance_url soql_query) = Inr response"
  shows "snd (execute_soql_query env net soql_query log) =
      log @ [token_request env password, query_request access_token instance_url soql_query]
    \<and> (status_code response = 200 \<and> json response = Some (JObj data) \<longrightarrow>
        soql_records response =
          Inr (case map_of data ''records'' of Some records \<Rightarrow> records | None \<Rightarrow> JArr [])
        \<and> \<not> isl (fst (execute_soql_query env net soql_query log)))
    \<and> (status_code response \<noteq> 200 \<longrightarrow>
        \<not> isl (fst (execute_soql_query env net soql_query log)))"
  using assms
  by (auto simp add: execute_soql_query_def io_bind_Inr io_bind_send io_return_def
      io_bind_lift soql_records_def response_json_def py_bind_def py_get_def
      split: sum.splits option.splits)

theorem execute_soql_query_reads_records_witness:
  "snd (execute_soql_query demo_env (scripted [token_response, opportunities_response])
      opportunities_query []) =
      [token_request demo_env ''passtok'',
       query_request (JStr ''00Dxx!AQ'') (JStr ''https://acme.my.salesforce.com'')
         opportunities_query]
   \<and> soql_records opportunities_response =
     Inr (JArr [acme_deal, beta_deal])
   \<and> \<not> isl (fst (execute_soql_query demo_env
        (scripted [token_response, opportunities_response]) opportunities_query []))
   \<and> \<not> isl (fst (execute_soql_query demo_env
        (scripted [token_response, not_found_response]) opportunities_query []))"
proof -
  have a: "scripted [token_response, r]
      ([] @ [token_request demo_env ''passtok'']) rq = Inr r" for rq r
    by (simp add: scripted_def)
  show ?thesis
    using execute_soql_query_reads_records [OF demo_auth a, of opportunities_response
        opportunities_query
        "[(''totalSize'', JInt 2), (''done'', JBool True),
        (''records'', JArr [acme_deal, beta_deal])]"]
      execute_soql_query_reads_records [OF demo_auth a, of not_found_response
        opportunities_query]
    by (simp add: opportunities_response_def json_response_def not_found_response_def)
qed

section \<open>The loops of the listings\<close>

lemma dict_set_fresh: "k \<notin> fst ` set kvs \<Longrightarrow> dict_set kvs k v = kvs @ [(k, v)]"
  by (induction kvs) auto

lemma upto_Suc_length: "[i..i + int (Suc n) - 1] = i # [i + 1..i + 1 + int n - 1]"
  by (simp add: upto_rec1)

lemma has_key_getitem: "has_key r k \<Longrightarrow> py_getitem r k = Inr (field_of r k)"
  by (auto simp: has_key_def field_of_def py_getitem_def split: jvalue.splits option.splits)

lemma opportunities_loop_ok:
  assumes "list_all is_opportunity_record rs" and "\<forall>k\<in>fst ` set opts. k < i"
  shows "opportunities_loop i rs acc opts =
     Inr (acc @ concat (map (\<lambda>(j, r). opportunity_option j r) (zip [i..i + int (length rs) - 1] rs)),
          opts @ map (\<lambda>(j, r). (j, field_of r ''Id'')) (zip [i..i + int (length rs) - 1] rs))"
  using assms
proof (induction rs arbitrary: i acc opts)
  case Nil
  then show ?case by simp
next
  case (Cons r rs)
  have fresh: "i \<notin> fst ` set opts" using Cons.prems(2) by auto
  have keys: "\<forall>k\<in>fst ` set (opts @ [(i, field_of r ''Id'')]). k < i + 1"
    using Cons.prems(2) by auto
  have rest: "list_all is_opportunity_record rs" using Cons.prems(1) by simp
  have r: "has_key r ''Id''" "has_key r ''Name''" "has_key r ''StageName''"
    "has_key r ''CloseDate''" "has_key r ''Amount''"
    using Cons.prems(1) by (simp_all add: is_opportunity_record_def)
  show ?case
    unfolding upto_Suc_length length_Cons
    by (simp add: has_key_getitem r py_bind_def dict_set_fresh [OF fresh]
        Cons.IH [OF rest keys] opportunity_option_def opportunity_entry_def)
qed

lemma py_get_object:
  "py_get (JObj kvs) k d = Inr (case map_of kvs k of Some v \<Rightarrow> v | None \<Rightarrow> d)"
  by (simp add: py_get_def split: option.splits)

lemma py_str_get_object:
  "py_str (case map_of kvs k of Some v \<Rightarrow> v | None \<Rightarrow> JStr []) = field_or_empty (JObj kvs) k"
  by (simp add: field_or_empty_def py_str_def split: option.splits)

lemma lead_entry_option:
  "lead_entry i
     (case map_of kvs ''FirstName'' of Some v \<Rightarrow> v | None \<Rightarrow> JStr [])
     (case map_of kvs ''LastName'' of Some v \<Rightarrow> v | None \<Rightarrow> JStr [])
     (case map_of kvs ''Company'' of Some v \<Rightarrow> v | None \<Rightarrow> JStr [])
     (case map_of kvs ''Email'' of Some v \<Rightarrow> v | None \<Rightarrow> JStr [])
     (case map_of kvs ''LeadSource'' of Some v \<Rightarrow> v | None \<Rightarrow> JStr [])
   = lead_option i (JObj kvs)"
  unfolding lead_entry_def lead_option_def py_str_get_object ..

lemma leads_loop_ok:
  assumes "list_all (\<lambda>r. has_key r ''Id'') rs" and "\<forall>k\<in>fst ` set opts. k < i"
  shows "leads_loop i rs acc opts =
     Inr (acc @ concat (map (\<lambda>(j, r). lead_option j r) (zip [i..i + int (length rs) - 1] rs)),
          opts @ map (\<lambda>(j, r). (j, field_of r ''Id'')) (zip [i..i + int (length rs) - 1] rs))"
  using assms
proof (induction rs arbitrary: i acc opts)
  case Nil
  then show ?case by simp
next
  case (Cons r rs)
  have fresh: "i \<notin> fst ` set opts" using Cons.prems(2) by auto
  have keys: "\<forall>k\<in>fst ` set (opts @ [(i, field_of r ''Id'')]). k < i + 1"
    using Cons.prems(2) by auto
  have rest: "list_all (\<lambda>r. has_key r ''Id'') rs" using Cons.prems(1) by simp
  have r: "has_key r ''Id''" using Cons.prems(1) by simp
  then obtain kvs where kvs: "r = JObj kvs"
    by (auto simp: has_key_def split: jvalue.splits)
  show ?case
    unfolding upto_Suc_length length_Cons leads_loop.simps kvs py_get_object
    using r
    by (simp add: py_bind_def has_key_getitem kvs lead_entry_option
        dict_set_fresh [OF fresh] Cons.IH [OF rest keys, unfolded kvs])
qed

lemma leads_loop_missing_id:
  assumes "list_all is_object rs" and "\<not> list_all (\<lambda>r. has_key r ''Id'') rs"
  shows "leads_loop i rs acc opts = Inl (KeyError ''Id'')"
  using assms
proof (induction rs arbitrary: i acc opts)
  case Nil
  then show ?case by simp
next
  case (Cons r rs)
  from Cons.prems(1) obtain kvs where kvs: "r = JObj kvs"
    by (auto simp: is_object_def split: jvalue.splits)
  show ?case
  proof (cases "has_key r ''Id''")
    case True
    then have "\<not> list_all (\<lambda>r. has_key r ''Id'') rs" using Cons.prems(2) by simp
    moreover have "list_all is_object rs" using Cons.prems(1) by simp
    ultimately have "leads_loop i' rs acc' opts' = Inl (KeyError ''Id'')" for i' acc' opts'
      using Cons.IH by blast
    then show ?thesis
      unfolding leads_loop.simps kvs py_get_object
      using True by (simp add: py_bind_def has_key_getitem kvs)
  next
    case False
    then have "py_getitem (JObj kvs) ''Id'' = Inl (KeyError ''Id'')"
      by (simp add: kvs has_key_def py_getitem_def)
    then show ?thesis
      unfolding leads_loop.simps kvs py_get_object
      by (simp add: py_bind_def)
  qed
qed

lemma numbered_keys: "map fst (numbered xs) = [1..int (length xs)]"
  by (simp add: numbered_def)

lemma options_of_keys: "map fst (options_of records) = [1..int (length records)]"
  by (simp add: options_of_def numbered_def case_prod_unfold comp_def) 

lemma options_of_lookup:
  assumes "1 \<le> k" and "k \<le> int (length records)"
  shows "map_of (options_of records) k = Some (field_of (records ! nat (k - 1)) ''Id'')"
proof -
  have len: "length [1..int (length records)] = length records" by simp
  have d: "distinct (map fst (options_of records))"
    by (simp add: options_of_keys)
  have n: "nat (k - 1) < length (options_of records)"
    using assms by (simp add: options_of_def numbered_def)
  have "options_of records ! nat (k - 1) = (k, field_of (records ! nat (k - 1)) ''Id'')"
    using assms n by (simp add: options_of_def numbered_def)
  then have "(k, field_of (records ! nat (k - 1)) ''Id'') \<in> set (options_of records)"
    using n nth_mem by metis
  then show ?thesis using d by simp
qed

lemma fetch_opportunities_records:
  assumes auth: "get_access_token_opp env net log =
      (Inr (access_token, instance_url), log @ [token_request env password])"
    and resp: "net (log @ [token_request env password])
      (query_request access_token instance_url opportunities_query) = Inr response"
    and ok: "status_code response = 200" "json response = Some (JObj data)"
      "map_of data ''records'' = Some (JArr records)"
    and recs: "list_all is_opportunity_record records"
  shows "fetch_opportunities env net log =
      (Inr (if records = [] then (no_opportunities_message, [])
            else (opportunities_text records, options_of records)),
       log @ [token_request env password,
         query_request access_token instance_url opportunities_query])"
proof -
  have loop: "opportunities_loop 1 records opportunities_header [] =
      Inr (opportunities_text records, options_of records)"
    using opportunities_loop_ok [OF recs, of "[]" 1 opportunities_header]
    by (simp add: numbered_def opportunities_text_def options_of_def
        opportunities_header_def)
  show ?thesis
    using auth resp ok
    by (simp add: fetch_opportunities_def io_bind_Inr io_bind_send io_bind_lift io_return_def
        io_lift_def response_json_def py_get_def py_truthy_def py_iter_def loop)
qed

lemma fetch_leads_records:
  assumes auth: "get_access_token_opp env net log =
      (Inr (access_token, instance_url), log @ [token_request env password])"
    and resp: "net (log @ [token_request env password])
      (query_request access_token instance_url leads_query) = Inr response"
    and ok: "status_code response = 200" "json response = Some (JObj data)"
      "map_of data ''records'' = Some (JArr records)"
    and recs: "list_all is_object records"
  shows "fetch_leads env net log =
      (if list_all (\<lambda>r. has_key r ''Id'') records
       then Inr (if records = [] then (no_leads_message, [])
                 else (leads_text records, options_of records))
       else Inl (KeyError ''Id''),
       log @ [token_request env password,
         query_request access_token instance_url leads_query])"
proof (cases "list_all (\<lambda>r. has_key r ''Id'') records")
  case True
  have loop: "leads_loop 1 records leads_header [] =
      Inr (leads_text records, options_of records)"
    using leads_loop_ok [OF True, of "[]" 1 leads_header]
    by (simp add: numbered_def leads_text_def options_of_def leads_header_def)
  show ?thesis
    using auth resp ok True
    by (simp add: fetch_leads_def io_bind_Inr io_bind_send io_bind_lift io_return_def
        io_lift_def response_json_def py_get_def py_truthy_def py_iter_def loop)
next
  case False
  then have ne: "records \<noteq> []" by auto
  have loop: "leads_loop 1 records leads_header [] = Inl (KeyError ''Id'')"
    by (rule leads_loop_missing_id [OF recs False])
  show ?thesis
    using auth resp ok False ne
    by (simp add: fetch_leads_def io_bind_Inr io_bind_send io_bind_lift io_return_def
        io_lift_def response_json_def py_get_def py_truthy_def py_iter_def loop)
qed

lemma has_key_imp_object: "has_key r k \<Longrightarrow> is_object r"
  by (auto simp: has_key_def is_object_def split: jvalue.splits)

lemma options_of_key_set: "fst ` set (options_of records) = {1..int (length records)}"
proof -
  have "fst ` set (options_of records) = set (map fst (options_of records))" by simp
  also have "\<dots> = {1..int (length records)}" by (simp only: options_of_keys set_upto)
  finally show ?thesis .
qed

subsection \<open>The sample listings\<close>

lemma listing_auth:
  "get_access_token_opp demo_env listing_net [] =
     (Inr (JStr ''00Dxx!AQ'', JStr ''https://acme.my.salesforce.com''),
      [] @ [token_request demo_env ''passtok''])"
  by (simp add: get_access_token_opp_def io_bind_lift io_bind_send io_return_def demo_env_def
      getenv_concat_def listing_net_def token_request_def token_response_def
      json_response_def response_json_def py_get_def)

lemma listing_net_opportunities:
  "listing_net ([] @ [token_request demo_env ''passtok''])
     (query_request (JStr ''00Dxx!AQ'') (JStr ''https://acme.my.salesforce.com'')
        opportunities_query) = Inr opportunities_response"
  by (simp add: listing_net_def query_request_def auth_url_def py_str_def api_version_def)

lemma listing_net_leads:
  "listing_net ([] @ [token_request demo_env ''passtok''])
     (query_request (JStr ''00Dxx!AQ'') (JStr ''https://acme.my.salesforce.com'')
        leads_query) = Inr leads_response"
  by (simp add: listing_net_def query_request_def auth_url_def py_str_def api_version_def
      leads_query_def opportunities_query_def)

lemma sample_opportunities_text:
  "opportunities_text [acme_deal, beta_deal] =
     ''*'' @ check_mark @ '' Opportunities Retrieved Successfully!*'' @ NL @ NL
        @ ''*Option 1 - Opportunity Name:* Acme Deal'' @ NL @ ''*'' @ calendar
        @ '' Close Date:* 2024-01-01'' @ NL @ ''*'' @ money_bag @ '' Amount:* 1000'' @ NL
        @ ''*'' @ bar_chart @ '' Stage:* Prospecting'' @ NL @ NL
        @ ''*Option 2 - Opportunity Name:* Beta Deal'' @ NL @ ''*'' @ calendar
        @ '' Close Date:* 2024-02-01'' @ NL @ ''*'' @ money_bag @ '' Amount:* 2000'' @ NL
        @ ''*'' @ bar_chart @ '' Stage:* Closed Won'' @ NL @ NL"
  by (simp add: upto.simps opportunities_text_def numbered_def opportunity_option_def field_of_def
      py_getitem_def acme_deal_def beta_deal_def py_str_def str_int_def dec_nat.simps)

lemma sample_opportunities_options:
  "options_of [acme_deal, beta_deal] = [(1, JStr ''006A''), (2, JStr ''006B'')]"
  by (simp add: upto.simps options_of_def numbered_def field_of_def py_getitem_def acme_deal_def
      beta_deal_def)

lemma sample_leads_text:
  "leads_text [ada_lead, hopper_lead] =
     ''*'' @ check_mark @ '' Leads Retrieved Successfully!*'' @ NL @ NL
        @ ''*Option 1 - Lead Name:* Ada Lovelace'' @ NL @ ''*'' @ office
        @ '' Company:* Analytical'' @ NL @ ''*'' @ e_mail @ '' Email:* ada@example.com''
        @ NL @ ''*'' @ link_sign @ '' Lead Source:* Web'' @ NL @ NL
        @ ''*Option 2 - Lead Name:*  Hopper'' @ NL @ ''*'' @ office @ '' Company:* '' @ NL
        @ ''*'' @ e_mail @ '' Email:* '' @ NL @ ''*'' @ link_sign @ '' Lead Source:* ''
        @ NL @ NL"
  by (simp add: upto.simps leads_text_def numbered_def lead_option_def field_or_empty_def
      ada_lead_def hopper_lead_def py_str_def str_int_def dec_nat.simps)

lemma sample_leads_options:
  "options_of [ada_lead, hopper_lead] = [(1, JStr ''00Q1''), (2, JStr ''00Q2'')]"
  by (simp add: upto.simps options_of_def numbered_def field_of_def py_getitem_def ada_lead_def
      hopper_lead_def)

section \<open>Options numbered in the order of the records\<close>

text \<open>
  Claim C5. For a non-empty sequence of \<open>N\<close> records, each carrying the fields its
  formatter subscripts (all five for an opportunity, \<^verbatim>\<open>Id\<close> for a lead),
  \<^verbatim>\<open>fetch_opportunities\<close> and \<^verbatim>\<open>fetch_leads\<close> return the header followed by exactly one
  block per record, labelled \<open>1\<close> to \<open>N\<close> in the order of the records, and an option
  mapping whose keys are exactly \<open>1\<close> to \<open>N\<close>, the key \<open>k\<close> mapped to the \<^verbatim>\<open>Id\<close>
  of the \<open>k\<close>-th record.
\<close>

theorem options_numbered_in_order:
  assumes auth: "get_access_token_opp env net log =
      (Inr (access_token, instance_url), log @ [token_request env password])"
    and resp_opp: "net (log @ [token_request env password])
      (query_request access_token instance_url opportunities_query) = Inr opp_response"
    and ok_opp: "status_code opp_response = 200" "json opp_response = Some (JObj opp_data)"
      "map_of opp_data ''records'' = Some (JArr opportunities)"
    and opps: "opportunities \<noteq> []" "list_all is_opportunity_record opportunities"
    and resp_lead: "net (log @ [token_request env password])
      (query_request access_token instance_url leads_query) = Inr lead_response"
    and ok_lead: "status_code lead_response = 200" "json lead_response = Some (JObj lead_data)"
      "map_of lead_data ''records'' = Some (JArr leads)"
    and leads: "leads \<noteq> []" "list_all (\<lambda>record. has_key record ''Id'') leads"
  shows "fetch_opportunities env net log =
      (Inr (opportunities_text opportunities, options_of opportunities),
       log @ [token_request env password,
         query_request access_token instance_url opportunities_query])
    \<and> fetch_leads env net log =
      (Inr (leads_text leads, options_of leads),
       log @ [token_request env password,
         query_request access_token instance_url leads_query])
    \<and> map fst (numbered records) = [1..int (length records)]
    \<and> map snd (numbered records) = records
    \<and> fst ` set (options_of records) = {1..int (length records)}
    \<and> (\<forall>k\<in>{1..int (length records)}.
         map_of (options_of records) k = Some (field_of (records ! nat (k - 1)) ''Id''))"
proof -
  have o: "list_all is_object leads"
    using leads(2) by (induction leads) (auto dest: has_key_imp_object)
  have n: "map snd (numbered records) = records"
    by (simp add: numbered_def)
  show ?thesis
    using fetch_opportunities_records [OF auth resp_opp ok_opp opps(2)] opps(1)
      fetch_leads_records [OF auth resp_lead ok_lead o] leads
    by (simp add: numbered_keys n options_of_key_set options_of_lookup)
qed

theorem options_numbered_in_order_witness:
  "fetch_opportunities demo_env listing_net [] =
     (Inr (''*'' @ check_mark @ '' Opportunities Retrieved Successfully!*'' @ NL @ NL
        @ ''*Option 1 - Opportunity Name:* Acme Deal'' @ NL @ ''*'' @ calendar
        @ '' Close Date:* 2024-01-01'' @ NL @ ''*'' @ money_bag @ '' Amount:* 1000'' @ NL
        @ ''*'' @ bar_chart @ '' Stage:* Prospecting'' @ NL @ NL
        @ ''*Option 2 - Opportunity Name:* Beta Deal'' @ NL @ ''*'' @ calendar
        @ '' Close Date:* 2024-02-01'' @ NL @ ''*'' @ money_bag @ '' Amount:* 2000'' @ NL
        @ ''*'' @ bar_chart @ '' Stage:* Closed Won'' @ NL @ NL,
        [(1, JStr ''006A''), (2, JStr ''006B'')]),
      [token_request demo_env ''passtok'',
       query_request (JStr ''00Dxx!AQ'') (JStr ''https://acme.my.salesforce.com'')
         opportunities_query])
   \<and> fetch_leads demo_env listing_net [] =
     (Inr (''*'' @ check_mark @ '' Leads Retrieved Successfully!*'' @ NL @ NL
        @ ''*Option 1 - Lead Name:* Ada Lovelace'' @ NL @ ''*'' @ office
        @ '' Company:* Analytical'' @ NL @ ''*'' @ e_mail @ '' Email:* ada@example.com''
        @ NL @ ''*'' @ link_sign @ '' Lead Source:* Web'' @ NL @ NL
        @ ''*Option 2 - Lead Name:*  Hopper'' @ NL @ ''*'' @ office @ '' Company:* '' @ NL
        @ ''*'' @ e_mail @ '' Email:* '' @ NL @ ''*'' @ link_sign @ '' Lead Source:* ''
        @ NL @ NL,
        [(1, JStr ''00Q1''), (2, JStr ''00Q2'')]),
      [token_request demo_env ''passtok'',
       query_request (JStr ''00Dxx!AQ'') (JStr ''https://acme.my.salesforce.com'')
         leads_query])
   \<and> fst ` set (options_of [acme_deal, beta_deal]) = {1..2}
   \<and> map_of (options_of [acme_deal, beta_deal]) 2 = Some (JStr ''006B'')"
proof -
  have o: "status_code opportunities_response = 200"
    "json opportunities_response = Some (JObj [(''totalSize'', JInt 2), (''done'', JBool True),
        (''records'', JArr [acme_deal, beta_deal])])"
    "map_of [(''totalSize'', JInt 2), (''done'', JBool True),
        (''records'', JArr [acme_deal, beta_deal])] ''records'' =
      Some (JArr [acme_deal, beta_deal])"
    by (simp_all add: opportunities_response_def json_response_def)
  have ow: "[acme_deal, beta_deal] \<noteq> []"
    "list_all is_opportunity_record [acme_deal, beta_deal]"
    by (simp_all add: is_opportunity_record_def has_key_def acme_deal_def beta_deal_def)
  have l: "status_code leads_response = 200"
    "json leads_response = Some (JObj [(''totalSize'', JInt 2), (''done'', JBool True),
        (''records'', JArr [ada_lead, hopper_lead])])"
    "map_of [(''totalSize'', JInt 2), (''done'', JBool True),
        (''records'', JArr [ada_lead, hopper_lead])] ''records'' =
      Some (JArr [ada_lead, hopper_lead])"
    by (simp_all add: leads_response_def json_response_def)
  have lw: "[ada_lead, hopper_lead] \<noteq> []"
    "list_all (\<lambda>record. has_key record ''Id'') [ada_lead, hopper_lead]"
    by (simp_all add: has_key_def ada_lead_def hopper_lead_def)
  have f: "field_of ([acme_deal, beta_deal] ! nat (2 - 1)) ''Id'' = JStr ''006B''"
    by (simp add: field_of_def py_getitem_def beta_deal_def)
  show ?thesis
    using options_numbered_in_order [OF listing_auth listing_net_opportunities o ow
        listing_net_leads l lw, of "[acme_deal, beta_deal]"]
    by (simp add: sample_opportunities_text sample_opportunities_options sample_leads_text
        sample_leads_options f)
qed

section \<open>Leads with missing fields\<close>

text \<open>
  Claim C10. On a 200 response whose records are JSON objects, \<^verbatim>\<open>fetch_leads\<close> fails in
  one case only: a record without \<^verbatim>\<open>Id\<close>, and then with \<^verbatim>\<open>KeyError\<close> on that key. When
  every record has an \<^verbatim>\<open>Id\<close> it succeeds, whichever of \<^verbatim>\<open>FirstName\<close>, \<^verbatim>\<open>LastName\<close>,
  \<^verbatim>\<open>Company\<close>, \<^verbatim>\<open>Email\<close> and \<^verbatim>\<open>LeadSource\<close> are absent, and the display puts the empty
  string in the place of a field the record does not have.
\<close>

theorem fetch_leads_missing_fields:
  assumes auth: "get_access_token_opp env net log =
      (Inr (access_token, instance_url), log @ [token_request env password])"
    and resp: "net (log @ [token_request env password])
      (query_request access_token instance_url leads_query) = Inr response"
    and ok: "status_code response = 200" "json response = Some (JObj data)"
      "map_of data ''records'' = Some (JArr leads)"
    and objects: "list_all is_object leads"
  shows "fetch_leads env net log =
      (if list_all (\<lambda>record. has_key record ''Id'') leads
       then Inr (if leads = [] then (''*'' @ cross_mark @ '' No leads found.*'', [])
                 else (leads_text leads, options_of leads))
       else Inl (KeyError ''Id''),
       log @ [token_request env password,
         query_request access_token instance_url leads_query])
    \<and> (\<not> has_key record k \<longrightarrow> field_or_empty record k = [])"
proof -
  have "field_or_empty record k = []" if "\<not> has_key record k"
    using that
    by (auto simp: has_key_def field_or_empty_def split: jvalue.splits option.splits)
  then show ?thesis
    using fetch_leads_records [OF auth resp ok objects]
    by (simp add: no_leads_message_def)
qed

theorem fetch_leads_missing_fields_witness:
  "fetch_leads demo_env (scripted [token_response, leads_response]) [] =
     (Inr (''*'' @ check_mark @ '' Leads Retrieved Successfully!*'' @ NL @ NL
        @ ''*Option 1 - Lead Name:* Ada Lovelace'' @ NL @ ''*'' @ office
        @ '' Company:* Analytical'' @ NL @ ''*'' @ e_mail @ '' Email:* ada@example.com''
        @ NL @ ''*'' @ link_sign @ '' Lead Source:* Web'' @ NL @ NL
        @ ''*Option 2 - Lead Name:*  Hopper'' @ NL @ ''*'' @ office @ '' Company:* '' @ NL
        @ ''*'' @ e_mail @ '' Email:* '' @ NL @ ''*'' @ link_sign @ '' Lead Source:* ''
        @ NL @ NL,
        [(1, JStr ''00Q1''), (2, JStr ''00Q2'')]),
      [token_request demo_env ''passtok'',
       query_request (JStr ''00Dxx!AQ'') (JStr ''https://acme.my.salesforce.com'')
         leads_query])
   \<and> fetch_leads demo_env (scripted [token_response, lead_without_id_response]) [] =
     (Inl (KeyError ''Id''),
      [token_request demo_env ''passtok'',
       query_request (JStr ''00Dxx!AQ'') (JStr ''https://acme.my.salesforce.com'')
         leads_query])
   \<and> field_or_empty hopper_lead ''Email'' = []"
proof -
  have a: "scripted [token_response, r]
      ([] @ [token_request demo_env ''passtok'']) rq = Inr r" for rq r
    by (simp add: scripted_def)
  have l: "status_code leads_response = 200"
    "json leads_response = Some (JObj [(''totalSize'', JInt 2), (''done'', JBool True),
        (''records'', JArr [ada_lead, hopper_lead])])"
    "map_of [(''totalSize'', JInt 2), (''done'', JBool True),
        (''records'', JArr [ada_lead, hopper_lead])] ''records'' =
      Some (JArr [ada_lead, hopper_lead])"
    by (simp_all add: leads_response_def json_response_def)
  have lo: "list_all is_object [ada_lead, hopper_lead]"
    by (simp add: is_object_def ada_lead_def hopper_lead_def)
  have k: "has_key ada_lead ''Id''" "has_key hopper_lead ''Id''"
    "\<not> has_key hopper_lead ''Email''"
    "\<not> has_key (JObj [(''LastName'', JStr ''Hopper'')]) ''Id''"
    by (simp_all add: has_key_def ada_lead_def hopper_lead_def)
  have w: "status_code lead_without_id_response = 200"
    "json lead_without_id_response =
      Some (JObj [(''totalSize'', JInt 2), (''done'', JBool True),
        (''records'', JArr [ada_lead, JObj [(''LastName'', JStr ''Hopper'')]])])"
    "map_of [(''totalSize'', JInt 2), (''done'', JBool True),
        (''records'', JArr [ada_lead, JObj [(''LastName'', JStr ''Hopper'')]])] ''records'' =
      Some (JArr [ada_lead, JObj [(''LastName'', JStr ''Hopper'')]])"
    by (simp_all add: lead_without_id_response_def json_response_def)
  have wo: "list_all is_object [ada_lead, JObj [(''LastName'', JStr ''Hopper'')]]"
    by (simp add: is_object_def ada_lead_def)
  show ?thesis
    using fetch_leads_missing_fields [OF demo_auth_opp a l lo, of hopper_lead "''Email''"]
      fetch_leads_missing_fields [OF demo_auth_opp a w wo]
    by (simp add: k sample_leads_text sample_leads_options)
qed

section \<open>Empty result sets\<close>

text \<open>
  Claim C6, the part the code does not have. On an empty result \<^verbatim>\<open>fetch_case_comments\<close>
  returns its message alone, a string: it has no option mapping to return with it.
\<close>

theorem fetch_case_comments_returns_message_alone:
  "fetch_case_comments demo_env (scripted [token_response, no_records_response])
      ''00001026'' [] =
     (Inr (''*'' @ cross_mark @ '' No comments found for this case number.*''),
      [token_request demo_env ''passtok'',
       query_request (JStr ''00Dxx!AQ'') (JStr ''https://acme.my.salesforce.com'')
         (case_comments_query ''00001026'')])"
proof -
  have a: "scripted [token_response, no_records_response]
      ([] @ [token_request demo_env ''passtok'']) rq = Inr no_records_response" for rq
    by (simp add: scripted_def)
  show ?thesis
    using demo_auth [of "[no_records_response]"] a
    by (simp add: fetch_case_comments_def io_bind_Inr io_bind_send io_bind_lift io_return_def
        no_records_response_def json_response_def response_json_def py_get_def py_truthy_def
        no_comments_message_def)
qed

text \<open>
  Claim C6, as the code has it. On a 200 response with an empty \<^verbatim>\<open>records\<close> array,
  \<^verbatim>\<open>fetch_opportunities\<close> and \<^verbatim>\<open>fetch_leads\<close> return their fixed message with an empty
  option mapping, and \<^verbatim>\<open>fetch_case_comments\<close> returns its fixed message.
\<close>

theorem empty_records_messages:
  assumes auth: "get_access_token env net log =
      (Inr (access_token, instance_url), log @ [token_request env password])"
    and auth_opp: "get_access_token_opp env net log =
      (Inr (access_token, instance_url), log @ [token_request env password])"
    and resp_opportunities: "net (log @ [token_request env password])
      (query_request access_token instance_url opportunities_query) = Inr response"
    and resp_leads: "net (log @ [token_request env password])
      (query_request access_token instance_url leads_query) = Inr response"
    and resp_comments: "net (log @ [token_request env password])
      (query_request access_token instance_url (case_comments_query case_number)) =
        Inr response"
    and ok: "status_code response = 200" "json response = Some (JObj data)"
    and empty: "map_of data ''records'' = Some (JArr [])"
  shows "fetch_opportunities env net log =
      (Inr (''*'' @ cross_mark @ '' No opportunities found.*'', []),
       log @ [token_request env password,
         query_request access_token instance_url opportunities_query])
    \<and> fetch_leads env net log =
      (Inr (''*'' @ cross_mark @ '' No leads found.*'', []),
       log @ [token_request env password,
         query_request access_token instance_url leads_query])
    \<and> fetch_case_comments env net case_number log =
      (Inr (''*'' @ cross_mark @ '' No comments found for this case number.*''),
       log @ [token_request env password,
         query_request access_token instance_url (case_comments_query case_number)])"
  using assms
  by (simp add: fetch_opportunities_def fetch_leads_def fetch_case_comments_def
      io_bind_Inr io_bind_send io_bind_lift io_return_def response_json_def py_get_def
      py_truthy_def no_opportunities_message_def no_leads_message_def no_comments_message_def)

theorem empty_records_messages_witness:
  "fetch_opportunities demo_env (scripted [token_response, no_records_response]) [] =
      (Inr (''*'' @ cross_mark @ '' No opportunities found.*'', []),
       [token_request demo_env ''passtok'',
        query_request (JStr ''00Dxx!AQ'') (JStr ''https://acme.my.salesforce.com'')
          opportunities_query])
   \<and> fetch_leads demo_env (scripted [token_response, no_records_response]) [] =
      (Inr (''*'' @ cross_mark @ '' No leads found.*'', []),
       [token_request demo_env ''passtok'',
        query_request (JStr ''00Dxx!AQ'') (JStr ''https://acme.my.salesforce.com'')
          leads_query])"
proof -
  have a: "scripted [token_response, no_records_response]
      ([] @ [token_request demo_env ''passtok'']) rq = Inr no_records_response" for rq
    by (simp add: scripted_def)
  have ok: "status_code no_records_response = 200"
    "json no_records_response =
       Some (JObj [(''totalSize'', JInt 0), (''done'', JBool True), (''records'', JArr [])])"
    by (simp_all add: no_records_response_def json_response_def)
  have e: "map_of [(''totalSize'', JInt 0), (''done'', JBool True),
      (''records'', JArr [])] ''records'' = Some (JArr [])"
    by simp
  show ?thesis
    using empty_records_messages [OF demo_auth demo_auth_opp a a a ok e, of "''00001026''"]
    by simp
qed

section \<open>The lifecycle transition\<close>

subsection \<open>The sample workflow\<close>

lemma sample_listing:
  "fetch_opportunities demo_env (scripted (token_response # opportunities_response # rs)) [] =
     (Inr (opportunities_text [acme_deal, beta_deal],
           [(1, JStr ''006A''), (2, JStr ''006B'')]),
      [token_request demo_env ''passtok'',
       query_request (JStr ''00Dxx!AQ'') (JStr ''https://acme.my.salesforce.com'')
         opportunities_query])"
proof -
  have a: "scripted (token_response # opportunities_response # rs)
      ([] @ [token_request demo_env ''passtok''])
      (query_request (JStr ''00Dxx!AQ'') (JStr ''https://acme.my.salesforce.com'')
         opportunities_query) = Inr opportunities_response"
    by (simp add: scripted_def)
  have o: "status_code opportunities_response = 200"
    "json opportunities_response = Some (JObj [(''totalSize'', JInt 2), (''done'', JBool True),
        (''records'', JArr [acme_deal, beta_deal])])"
    "map_of [(''totalSize'', JInt 2), (''done'', JBool True),
        (''records'', JArr [acme_deal, beta_deal])] ''records'' =
      Some (JArr [acme_deal, beta_deal])"
    by (simp_all add: opportunities_response_def json_response_def)
  have w: "list_all is_opportunity_record [acme_deal, beta_deal]"
    by (simp add: is_opportunity_record_def has_key_def acme_deal_def beta_deal_def)
  show ?thesis
    using fetch_opportunities_records [OF demo_auth_opp a o w]
    by (simp add: sample_opportunities_options)
qed

lemma demo_auth_opp_later:
  assumes "length log < length rs" and "rs ! length log = token_response"
  shows "get_access_token_opp demo_env (scripted rs) log =
     (Inr (JStr ''00Dxx!AQ'', JStr ''https://acme.my.salesforce.com''),
      log @ [token_request demo_env ''passtok''])"
  using assms
  by (simp add: get_access_token_opp_def io_bind_lift io_bind_send io_return_def demo_env_def
      getenv_concat_def scripted_def token_response_def json_response_def response_json_def
      py_get_def)

lemma sample_details:
  "fetch_opportunity_details demo_env
     (scripted [token_response, opportunities_response, token_response, beta_deal_response])
     (JStr ''006B'') [rq1, rq2] =
     (Inr beta_deal,
      [rq1, rq2, token_request demo_env ''passtok'',
       sobject_request GET (JStr ''00Dxx!AQ'') (JStr ''https://acme.my.salesforce.com'')
         ''Opportunity'' ''006B'' NoPayload])"
proof -
  have a: "get_access_token_opp demo_env
      (scripted [token_response, opportunities_response, token_response, beta_deal_response])
      [rq1, rq2] =
     (Inr (JStr ''00Dxx!AQ'', JStr ''https://acme.my.salesforce.com''),
      [rq1, rq2, token_request demo_env ''passtok''])"
    using demo_auth_opp_later [of "[rq1, rq2]"
        "[token_response, opportunities_response, token_response, beta_deal_response]"]
    by simp
  show ?thesis
    using a
    by (simp add: fetch_opportunity_details_def io_bind_Inr io_bind_send io_lift_def
        scripted_def beta_deal_response_def json_response_def response_json_def py_str_def)
qed

text \<open>
  Claim C1. When the chosen option resolves to a record whose \<^verbatim>\<open>StageName\<close> is the
  requested stage, the workflow is to return the message that no update is needed, and
  not to call \<^verbatim>\<open>update_opportunity_stage\<close>. On the sample the tools give what the claim
  supposes: the listing maps option 2 to \<^verbatim>\<open>006B\<close>, and the record fetched for \<^verbatim>\<open>006B\<close>
  has the stage Closed Won. The workflow, asked to move option 2 to Closed Won, returns no
  message: it raises \<^verbatim>\<open>TypeError\<close> at its call of \<^verbatim>\<open>fetch_opportunities\<close>, before any
  request (so no PATCH is issued either).
\<close>

theorem same_stage_workflow_raises:
  "fetch_opportunities demo_env
     (scripted [token_response, opportunities_response, token_response, beta_deal_response])
     [] =
     (Inr (opportunities_text [acme_deal, beta_deal],
           [(1, JStr ''006A''), (2, JStr ''006B'')]),
      [token_request demo_env ''passtok'',
       query_request (JStr ''00Dxx!AQ'') (JStr ''https://acme.my.salesforce.com'')
         opportunities_query])
   \<and> fetch_opportunity_details demo_env
     (scripted [token_response, opportunities_response, token_response, beta_deal_response])
     (JStr ''006B'')
     [token_request demo_env ''passtok'',
      query_request (JStr ''00Dxx!AQ'') (JStr ''https://acme.my.salesforce.com'')
        opportunities_query] =
     (Inr beta_deal,
      [token_request demo_env ''passtok'',
       query_request (JStr ''00Dxx!AQ'') (JStr ''https://acme.my.salesforce.com'')
         opportunities_query,
       token_request demo_env ''passtok'',
       sobject_request GET (JStr ''00Dxx!AQ'') (JStr ''https://acme.my.salesforce.com'')
         ''Opportunity'' ''006B'' NoPayload])
   \<and> py_get beta_deal ''StageName'' (JStr ''Not Available'') = Inr (JStr ''Closed Won'')
   \<and> validate_and_update_lifecycle_transition demo_env
     (scripted [token_response, opportunities_response, token_response, beta_deal_response])
     2 ''Closed Won'' [] =
     (Inl TypeError, [])"
  by (simp add: sample_listing sample_details workflow_raises py_get_def beta_deal_def)

text \<open>
  Claim C2. For a choice that is not a key of the option mapping the workflow is to return
  the fixed invalid-option message, without a network call. On the sample the listing has
  the options 1 and 2, and the choice is 3. The workflow returns no message: it raises
  \<^verbatim>\<open>TypeError\<close> at its call of \<^verbatim>\<open>fetch_opportunities\<close>, before any request.
\<close>

theorem invalid_choice_workflow_raises:
  "fetch_opportunities demo_env (scripted [token_response, opportunities_response]) [] =
     (Inr (opportunities_text [acme_deal, beta_deal],
           [(1, JStr ''006A''), (2, JStr ''006B'')]),
      [token_request demo_env ''passtok'',
       query_request (JStr ''00Dxx!AQ'') (JStr ''https://acme.my.salesforce.com'')
         opportunities_query])
   \<and> map_of [(1, JStr ''006A''), (2, JStr ''006B'')] (3 :: int) = None
   \<and> validate_and_update_lifecycle_transition demo_env
        (scripted [token_response, opportunities_response]) 3 ''Closed Won'' [] =
     (Inl TypeError, [])"
  by (simp add: sample_listing workflow_raises)

end
